theory Spec2Isabelle
  imports Complex_Main "HOL-Library.Sublist"
begin

section \<open>Python string primitives used by the plugin\<close>

text \<open>
  \<open>s.find(c, start)\<close> for a one-character needle: the lowest index \<open>i \<ge> start\<close> with
  \<open>s[i] = c\<close>, and \<open>-1\<close> when there is none (also when \<open>start\<close> is past the end).
  Indices count the characters of \<^typ>\<open>string\<close>, which agree with Python's for the ASCII
  links that SynBioHub serves.
\<close>

definition str_find :: "string \<Rightarrow> char \<Rightarrow> nat \<Rightarrow> int" where
  "str_find s c start =
     (case filter (\<lambda>i. s ! i = c) [start..<length s] of
        [] \<Rightarrow> - 1
      | i # _ \<Rightarrow> int i)"

text \<open>
  \<open>s.replace(old, new)\<close>: every non-overlapping occurrence of \<open>old\<close>, found left to
  right, is replaced. With an empty \<open>old\<close> Python puts \<open>new\<close> before every character
  and once more at the end.
\<close>

function replace_scan :: "string \<Rightarrow> string \<Rightarrow> string \<Rightarrow> string" where
  "replace_scan old new [] = []"
| "replace_scan old new (c # cs) =
     (if old \<noteq> [] \<and> prefix old (c # cs)
      then new @ replace_scan old new (drop (length old) (c # cs))
      else c # replace_scan old new cs)"
  by pat_completeness auto
termination
  by (relation "measure (\<lambda>(old, new, s). length s)") (auto simp: neq_Nil_conv)

definition str_replace :: "string \<Rightarrow> string \<Rightarrow> string \<Rightarrow> string" where
  "str_replace s old new =
     (if old = [] then concat (map (\<lambda>c. new @ [c]) s) @ new
      else replace_scan old new s)"

text \<open>Whether \<open>old\<close> occurs somewhere in \<open>s\<close> as a contiguous block.\<close>

fun occurs :: "string \<Rightarrow> string \<Rightarrow> bool" where
  "occurs old [] = (old = [])"
| "occurs old (c # cs) = (prefix old (c # cs) \<or> occurs old cs)"

section \<open>\<open>uri_to_url\<close>\<close>

text \<open>
  The expression \<open>deff[:deff.find('/', 8) + 1]\<close> that the source writes in \<open>uri_to_url\<close>
  (both branches), \<open>most_used_bar\<close>, \<open>most_used_by_type_bar\<close> and \<open>sankey\<close>. When no
  \<open>'/'\<close> is found the slice is \<open>deff[:0]\<close>, the empty string.
\<close>

definition uri_instance_of :: "string \<Rightarrow> string" where
  "uri_instance_of deff = take (nat (str_find deff CHR ''/'' 8 + 1)) deff"

text \<open>
  The argument \<open>data\<close> is a \<open>str\<close> or a reference to a pandas Series. Series objects
  live in a store; a Series is the list of its cells, labelled by position (the callers
  pass columns of frames whose index is \<open>0..n-1\<close>).
\<close>

datatype data = Str string | Series nat

type_synonym store = "nat \<rightharpoonup> string list"

text \<open>\<open>data[idx] = v\<close> on the Series at address \<open>a\<close>.\<close>

definition series_setitem :: "nat \<Rightarrow> nat \<Rightarrow> string \<Rightarrow> store \<Rightarrow> store" where
  "series_setitem a idx v h =
     (case h a of None \<Rightarrow> h | Some cells \<Rightarrow> h(a \<mapsto> cells[idx := v]))"

text \<open>The body of \<open>for idx, deff in data.items()\<close>.\<close>

definition series_body :: "nat \<Rightarrow> string \<Rightarrow> string \<Rightarrow> store \<Rightarrow> nat \<times> string \<Rightarrow> store" where
  "series_body a instance spoofed_instance h item =
     (case item of (idx, deff) \<Rightarrow>
        (let uri_instance = uri_instance_of deff
         in if uri_instance = spoofed_instance
            then series_setitem a idx (str_replace deff uri_instance instance) h
            else h))"

text \<open>
  \<open>uri_to_url(data, instance, spoofed_instance)\<close> with the store threaded through. The
  Series branch never rebinds \<open>data\<close>; the \<open>str\<close> branch rebinds it to a new string.
\<close>

definition uri_to_url :: "data \<Rightarrow> string \<Rightarrow> string \<Rightarrow> store \<Rightarrow> data \<times> store" where
  "uri_to_url data instance spoofed_instance h =
     (if spoofed_instance \<noteq> instance then
        (case data of
           Series a \<Rightarrow>
             (case h a of
                None \<Rightarrow> (data, h)
              | Some cells \<Rightarrow>
                  (data, foldl (series_body a instance spoofed_instance) h (enumerate 0 cells)))
         | Str s \<Rightarrow>
             (let uri_instance = uri_instance_of s
              in if uri_instance = spoofed_instance
                 then (Str (str_replace s uri_instance instance), h)
                 else (data, h)))
      else (data, h))"

text \<open>
  What a caller gets back: \<open>uri_to_url(uri, ...)\<close> on a string, and
  \<open>df['deff'] = uri_to_url(df['deff'], ...)\<close> on a column, whose cells after the call
  are stored back into the frame.
\<close>

definition uri_to_url_str :: "string \<Rightarrow> string \<Rightarrow> string \<Rightarrow> string" where
  "uri_to_url_str s instance spoofed_instance =
     (case fst (uri_to_url (Str s) instance spoofed_instance Map.empty) of
        Str r \<Rightarrow> r
      | Series a \<Rightarrow> s)"

definition uri_to_url_column :: "string list \<Rightarrow> string \<Rightarrow> string \<Rightarrow> string list" where
  "uri_to_url_column cells instance spoofed_instance =
     (case uri_to_url (Series 0) instance spoofed_instance [0 \<mapsto> cells] of
        (Series a, h) \<Rightarrow> (case h a of Some cells' \<Rightarrow> cells' | None \<Rightarrow> cells)
      | (Str r, h) \<Rightarrow> cells)"


section \<open>Ranked comparison tables: \<open>most_used_bar\<close> and \<open>most_used_by_type_bar\<close>\<close>

text \<open>
  A cell of the \<open>count\<close> column holds the string the SPARQL endpoint sent, or the
  integer \<open>count\<close> argument in the row of the part of interest. The \<open>title\<close> cell
  may be null. The frame handed to the models below is \<open>bar_df\<close> as it stands after
  the columns were renamed and the unneeded ones dropped; the HTTP request that
  produced it is outside the model.
\<close>

datatype cell = Text string | Number int

record 'c part_row =
  count :: 'c
  deff :: string
  displayId :: string
  roletog :: string
  title :: "string option"

record 'c ranked_row = "'c part_row" +
  color :: string

datatype error = IndexError

text \<open>
  \<open>df.iloc[i] = row\<close>: a position outside \<open>-len .. len-1\<close> raises, a negative one
  counts from the end.
\<close>

definition iloc_setitem :: "'a list \<Rightarrow> int \<Rightarrow> 'a \<Rightarrow> error + 'a list" where
  "iloc_setitem df i row =
     (let n = int (length df)
      in if 0 \<le> i \<and> i < n then Inr (df[nat i := row])
         else if - n \<le> i \<and> i < 0 then Inr (df[nat (n + i) := row])
         else Inl IndexError)"

definition colormap :: "string \<rightharpoonup> string" where
  "colormap = map_of
     [(''http://identifiers.org/so/SO:0000167'', ''rgba(4,187,61,1)''),
      (''http://identifiers.org/so/SO:0000139'', ''rgba(149,110,219,1)''),
      (''http://identifiers.org/so/SO:0000316'', ''rgba(119,157,205,1)''),
      (''http://identifiers.org/so/SO:0000141'', ''rgba(202,58,32,1)'')]"

text \<open>\<open>bar_df['deff'] = uri_to_url(bar_df['deff'], instance, spoofed_instance)\<close>.\<close>

definition set_deff :: "('c, 'z) part_row_scheme list \<Rightarrow> string list \<Rightarrow> ('c, 'z) part_row_scheme list" where
  "set_deff df col = map (\<lambda>(r, d). r\<lparr>deff := d\<rparr>) (zip df col)"

definition resolve_deff :: "('c, 'z) part_row_scheme list \<Rightarrow> string \<Rightarrow> string \<Rightarrow> ('c, 'z) part_row_scheme list" where
  "resolve_deff df instance spoofed_instance =
     set_deff df (uri_to_url_column (map deff df) instance spoofed_instance)"

text \<open>\<open>df.title[df.title.isnull()] = df.displayId[df.title.isnull()]\<close>.\<close>

definition fill_title :: "('c, 'z) part_row_scheme \<Rightarrow> ('c, 'z) part_row_scheme" where
  "fill_title r = (case title r of None \<Rightarrow> r\<lparr>title := Some (displayId r)\<rparr> | Some t \<Rightarrow> r)"

text \<open>\<open>bar_df['color'] = pd.Series(colours, index=bar_df.index)\<close>.\<close>

definition add_color :: "cell part_row list \<Rightarrow> string list \<Rightarrow> cell ranked_row list" where
  "add_color df colours =
     map (\<lambda>(r, c). \<lparr>count = count r, deff = deff r, displayId = displayId r,
                     roletog = roletog r, title = title r, color = c\<rparr>) (zip df colours)"

text \<open>
  Lines 112 to 135 of \<open>most_used_bar\<close>, the same in \<open>most_used_by_type_bar\<close>: drop the
  part of interest, keep rows \<open>0 .. robustness\<close>, resolve the links, and write the row of
  the part of interest over position \<open>robustness\<close>.
\<close>

definition poi_table ::
  "string \<Rightarrow> string \<Rightarrow> string \<Rightarrow> string \<Rightarrow> string \<Rightarrow> int \<Rightarrow> cell part_row list
     \<Rightarrow> error + cell part_row list" where
  "poi_table uri instance display_id title_arg role count_arg bar_df =
     (let spoofed_instance = uri_instance_of uri;
          part_url = uri_to_url_str uri instance spoofed_instance;
          bar_df = filter (\<lambda>r. displayId r \<noteq> display_id) bar_df;
          robustness = min 10 (int (length bar_df) - 1);
          bar_df = take (nat (robustness + 1)) bar_df;
          bar_df = resolve_deff bar_df instance spoofed_instance;
          poi_row = \<lparr>count = Number count_arg, deff = part_url, displayId = display_id,
                     roletog = ''http://identifiers.org/so/SO:'' @ role,
                     title = Some title_arg\<rparr>
      in iloc_setitem bar_df robustness poi_row)"

definition most_used_bar ::
  "string \<Rightarrow> string \<Rightarrow> string \<Rightarrow> string \<Rightarrow> string \<Rightarrow> int \<Rightarrow> cell part_row list
     \<Rightarrow> error + cell ranked_row list" where
  "most_used_bar uri instance display_id title_arg role count_arg bar_df =
     (case poi_table uri instance display_id title_arg role count_arg bar_df of
        Inl e \<Rightarrow> Inl e
      | Inr bar_df \<Rightarrow>
          (let colours = map (\<lambda>index.
                 case colormap (roletog (bar_df ! index)) of
                   Some c \<Rightarrow> c
                 | None \<Rightarrow> ''rgba(255, 128,0,1)'') [0..<length bar_df]
           in Inr (map fill_title (add_color bar_df colours))))"

definition most_used_by_type_bar ::
  "string \<Rightarrow> string \<Rightarrow> string \<Rightarrow> string \<Rightarrow> string \<Rightarrow> int \<Rightarrow> cell part_row list
     \<Rightarrow> error + cell ranked_row list" where
  "most_used_by_type_bar uri instance display_id title_arg role count_arg bar_df =
     (case poi_table uri instance display_id title_arg role count_arg bar_df of
        Inl e \<Rightarrow> Inl e
      | Inr bar_df \<Rightarrow>
          (let part_role = str_replace ''http://identifiers.org/so/SO:0000167'' ''0000167'' role;
               colours = (case colormap part_role of
                            Some c \<Rightarrow> [c]
                          | None \<Rightarrow> [''rgba(255, 128,0,1)'']);
               colours = concat (replicate (length bar_df) colours)
           in Inr (map fill_title (add_color bar_df colours))))"

section \<open>The flow graph table: \<open>sankey\<close>\<close>

text \<open>
  A row of \<open>order_df\<close> after \<open>pd.to_numeric\<close>. The numbers are kept abstract: the model
  only uses the \<open>1\<close>, \<open>-\<close> and \<open>*\<close> that the source applies to them.
\<close>

record 'n order_row = "'n part_row" +
  centfol :: 'n

definition link_colours :: "string list" where
  "link_colours = [''rgba(4,187,61,0.5)'', ''rgba(149,110,219,0.5)'',
                   ''rgba(119,157,205,0.5)'', ''rgba(202,58,32,0.5)'',
                   ''rgba(255, 128,0,0.5)'']"

definition node_colours :: "string list" where
  "node_colours = [''#04BB3D'', ''#956EDB'', ''#779DCC'', ''#CA3A20'', ''#FF8000'']"

definition part_colour :: string where
  "part_colour = ''#000000''"

text \<open>
  The lists the source builds. \<open>list_node_colour = node_colours\<close> binds a second name to
  the same list object, so a later \<open>node_colours[i]\<close> reads that growing list: the
  model has the one field \<open>list_node_colour\<close> for both names.
\<close>

record 'n lists =
  source :: "nat list"
  list_target :: "nat list"
  value' :: "'n list"
  percent :: "'n list"
  multiplier :: "'n list"
  list_link_colour :: "string list"
  len_part_type :: "nat list"
  target :: nat
  list_node_colour :: "string list"
  node_label :: "string option list"
  node_url :: "string list"

definition init_lists :: "'n lists" where
  "init_lists =
     \<lparr>source = [], list_target = [], value' = [], percent = [], multiplier = [],
      list_link_colour = [], len_part_type = [], target = 5,
      list_node_colour = node_colours,
      node_label = [Some ''Preceeding Promoters'', Some ''Preceeding RBS'',
                    Some ''Preceeding CDS'', Some ''Preceeding Terminator'',
                    Some ''Preceeding Other''],
      node_url = [''NA'', ''NA'', ''NA'', ''NA'', ''NA'']\<rparr>"

text \<open>The body of \<open>for index in range(0, len_part_type[part_type_index])\<close>.\<close>

definition inner_body ::
  "('n::{one,minus,times}) order_row list list \<Rightarrow> nat \<Rightarrow> 'n lists \<Rightarrow> nat \<Rightarrow> 'n lists" where
  "inner_body part_array part_type_index st index =
     (let row = part_array ! part_type_index ! index
      in st\<lparr>list_link_colour := list_link_colour st @ [link_colours ! part_type_index],
            list_node_colour := list_node_colour st @ [list_node_colour st ! part_type_index],
            node_label := node_label st @ [title row],
            node_url := node_url st @ [deff row],
            percent := percent st @ [centfol row],
            multiplier := multiplier st @ [count row],
            value' := value' st @ [count row * (1 - centfol row)],
            source := source st @ [part_type_index],
            list_target := list_target st @ [target st],
            target := target st + 1\<rparr>)"

text \<open>The body of \<open>for part_type_index in range(0, 5)\<close>.\<close>

definition outer_body ::
  "('n::{one,minus,times}) order_row list list \<Rightarrow> 'n lists \<Rightarrow> nat \<Rightarrow> 'n lists" where
  "outer_body part_array st part_type_index =
     (let part_array_lengths = map length part_array;
          st = st\<lparr>len_part_type := len_part_type st @ [min (part_array_lengths ! part_type_index) 10]\<rparr>
      in foldl (inner_body part_array part_type_index) st
           [0..<len_part_type st ! part_type_index])"

text \<open>"Preceding parts to POI".\<close>

definition preceding_to_poi :: "nat \<Rightarrow> 'n lists \<Rightarrow> 'n lists" where
  "preceding_to_poi num_colocated_parts st =
     (let st = st\<lparr>list_link_colour := list_link_colour st @ list_link_colour st\<rparr>;
          st = st\<lparr>value' := value' st @ value' st\<rparr>;
          st = st\<lparr>source := source st @ list_target st\<rparr>;
          st = st\<lparr>list_target := list_target st @ replicate num_colocated_parts (target st)\<rparr>
      in st)"

text \<open>"Add POI node".\<close>

definition add_poi :: "string \<Rightarrow> string \<Rightarrow> 'n lists \<Rightarrow> 'n lists" where
  "add_poi title_arg url st =
     (let st = st\<lparr>node_label := node_label st @ [Some title_arg]\<rparr>;
          st = st\<lparr>node_url := node_url st @ [url]\<rparr>;
          st = st\<lparr>list_node_colour := list_node_colour st @ [part_colour]\<rparr>
      in st)"

text \<open>"POI to following". The slice \<open>xs[5:-1]\<close> is \<open>drop 5 (butlast xs)\<close>.\<close>

definition poi_to_following :: "nat \<Rightarrow> ('n::{one,minus,times}) lists \<Rightarrow> 'n lists" where
  "poi_to_following num_colocated_parts st =
     (let st = st\<lparr>source := source st @ replicate num_colocated_parts (target st)\<rparr>;
          st = st\<lparr>list_target := list_target st @
                    [target st + 1..<target st + num_colocated_parts + 1]\<rparr>;
          st = st\<lparr>list_link_colour := list_link_colour st @
                    take num_colocated_parts (list_link_colour st)\<rparr>;
          st = st\<lparr>value' := value' st @
                    map (\<lambda>(p, m). p * m) (zip (percent st) (multiplier st))\<rparr>;
          st = st\<lparr>node_label := node_label st @ drop 5 (butlast (node_label st))\<rparr>;
          st = st\<lparr>list_node_colour := list_node_colour st @
                    drop 5 (butlast (list_node_colour st))\<rparr>;
          st = st\<lparr>node_url := node_url st @ drop 5 (butlast (node_url st))\<rparr>
      in st)"

text \<open>"Following to Following labels".\<close>

definition following_to_labels :: "nat \<Rightarrow> ('n::{one,minus,times}) lists \<Rightarrow> 'n lists" where
  "following_to_labels num_colocated_parts st =
     (let st = st\<lparr>source := source st @
                    [target st + 1..<target st + num_colocated_parts + 1]\<rparr>;
          st = st\<lparr>list_target := list_target st @
                    map (\<lambda>x. x + target st + num_colocated_parts + 1)
                        (take num_colocated_parts (source st))\<rparr>;
          st = st\<lparr>list_link_colour := list_link_colour st @
                    take num_colocated_parts (list_link_colour st)\<rparr>;
          st = st\<lparr>value' := value' st @
                    map (\<lambda>(p, m). p * m) (zip (percent st) (multiplier st))\<rparr>;
          st = st\<lparr>node_label := node_label st @
                    [Some ''Following Promoters'', Some ''Following RBS'',
                     Some ''Following CDS'', Some ''Following Terminator'',
                     Some ''Following Other'']\<rparr>;
          st = st\<lparr>list_node_colour := list_node_colour st @
                    [''#04BB3D'', ''#956EDB'', ''#779DCC'', ''#CA3A20'', ''#FF8000'']\<rparr>;
          st = st\<lparr>node_url := node_url st @ [''NA'', ''NA'', ''NA'', ''NA'', ''NA'']\<rparr>
      in st)"

text \<open>
  The five frames \<open>prom\<close>, \<open>rbs\<close>, \<open>cds\<close>, \<open>term\<close> and \<open>other\<close> cut out of \<open>order_df\<close>.
\<close>

definition part_array_of :: "'n order_row list \<Rightarrow> 'n order_row list list" where
  "part_array_of order_df =
     (let prom = filter (\<lambda>r. roletog r = ''http://identifiers.org/so/SO:0000167'') order_df;
          rbs = filter (\<lambda>r. roletog r = ''http://identifiers.org/so/SO:0000139'') order_df;
          cds = filter (\<lambda>r. roletog r = ''http://identifiers.org/so/SO:0000316'') order_df;
          term = filter (\<lambda>r. roletog r = ''http://identifiers.org/so/SO:0000141'') order_df;
          other = filter (\<lambda>r. roletog r \<noteq> ''http://identifiers.org/so/SO:0000167'') order_df;
          other = filter (\<lambda>r. roletog r \<noteq> ''http://identifiers.org/so/SO:0000139'') other;
          other = filter (\<lambda>r. roletog r \<noteq> ''http://identifiers.org/so/SO:0000316'') other;
          other = filter (\<lambda>r. roletog r \<noteq> ''http://identifiers.org/so/SO:0000141'') other
      in [prom, rbs, cds, term, other])"

text \<open>
  The seven lists as they stand before the frame is made, from \<open>order_df\<close> as it is after
  the numeric conversion of line 110.
\<close>

definition sankey_lists ::
  "string \<Rightarrow> string \<Rightarrow> string \<Rightarrow> string \<Rightarrow> ('n::{one,minus,times}) order_row list \<Rightarrow> 'n lists" where
  "sankey_lists url uri title_arg instance order_df =
     (let spoofed_instance = uri_instance_of uri;
          order_df = resolve_deff order_df instance spoofed_instance;
          order_df = map fill_title order_df;
          part_array = part_array_of order_df;
          st = foldl (outer_body part_array) init_lists [0..<5];
          num_colocated_parts = length (list_link_colour st);
          st = preceding_to_poi num_colocated_parts st;
          st = add_poi title_arg url st;
          st = poi_to_following num_colocated_parts st;
          st = following_to_labels num_colocated_parts st
      in st)"

text \<open>
  \<open>pd.DataFrame(data=[...], index=[...]).T\<close>: the seven lists become the columns of one
  frame; a list shorter than the longest one is filled up with missing cells.
\<close>

record 'n skey =
  Source :: "nat option list"
  Target :: "nat option list"
  Value :: "'n option list"
  Color :: "string option list"
  Node_Label :: "string option list"
  Link :: "string option list"
  Link_Color :: "string option list"

definition pad :: "nat \<Rightarrow> 'a list \<Rightarrow> 'a option list" where
  "pad n xs = map Some xs @ replicate (n - length xs) None"

definition make_frame :: "'n lists \<Rightarrow> 'n skey" where
  "make_frame st =
     (let n = Max (set [length (source st), length (list_target st), length (value' st),
                        length (list_node_colour st), length (node_label st),
                        length (node_url st), length (list_link_colour st)])
      in \<lparr>Source = pad n (source st), Target = pad n (list_target st),
          Value = pad n (value' st), Color = pad n (list_node_colour st),
          Node_Label = node_label st @ replicate (n - length (node_label st)) None,
          Link = pad n (node_url st), Link_Color = pad n (list_link_colour st)\<rparr>)"

definition sankey ::
  "string \<Rightarrow> string \<Rightarrow> string \<Rightarrow> string \<Rightarrow> ('n::{one,minus,times}) order_row list \<Rightarrow> 'n skey" where
  "sankey url uri title_arg instance order_df =
     make_frame (sankey_lists url uri title_arg instance order_df)"

text \<open>
  The rows of the five buckets that the loop visits, in the order it visits them, each
  with the index of its bucket.
\<close>

definition kept_rows :: "'n order_row list list \<Rightarrow> (nat \<times> 'n order_row) list" where
  "kept_rows part_array =
     concat (map (\<lambda>i. map (Pair i) (take 10 (part_array ! i))) [0..<5])"

text \<open>
  The rows that \<open>sankey\<close> keeps, as the loop sees them: after the links were resolved
  and the missing titles filled in.
\<close>

definition kept :: "string \<Rightarrow> string \<Rightarrow> 'n order_row list \<Rightarrow> (nat \<times> 'n order_row) list" where
  "kept uri instance order_df =
     kept_rows (part_array_of
       (map fill_title (resolve_deff order_df instance (uri_instance_of uri))))"

section \<open>Facts about the string primitives and \<open>uri_to_url\<close>\<close>

lemma replace_scan_prefix:
  "old \<noteq> [] \<Longrightarrow> replace_scan old new (old @ rest) = new @ replace_scan old new rest"
  by (cases old) auto

lemma replace_scan_absent:
  "old \<noteq> [] \<Longrightarrow> \<not> occurs old s \<Longrightarrow> replace_scan old new s = s"
  by (induction s) auto

lemma str_replace_starts:
  "prefix new (str_replace (old @ rest) old new)"
proof (cases "old = []")
  case True
  then show ?thesis by (cases rest) (auto simp: str_replace_def)
next
  case False
  then show ?thesis by (simp add: str_replace_def replace_scan_prefix)
qed

lemma uri_instance_of_prefix: "prefix (uri_instance_of s) s"
  by (simp add: uri_instance_of_def take_is_prefix)

lemma uri_instance_of_split: "s = uri_instance_of s @ drop (length (uri_instance_of s)) s"
  by (metis append_take_drop_id uri_instance_of_def length_take min.commute take_all_iff take_take nat_le_linear)

lemma uri_to_url_str_eq:
  "uri_to_url_str s instance spoofed =
     (if spoofed \<noteq> instance \<and> uri_instance_of s = spoofed
      then str_replace s spoofed instance else s)"
  by (simp add: uri_to_url_str_def uri_to_url_def Let_def)

lemma series_body_at:
  assumes "h a = Some (ys @ x # rest)"
  shows "series_body a inst spoofed h (length ys, x) =
         h(a \<mapsto> ys @ (if uri_instance_of x = spoofed then str_replace x spoofed inst else x) # rest)"
  using assms by (auto simp: series_body_def series_setitem_def Let_def fun_upd_idem)

lemma series_loop:
  "h a = Some (cells @ rest) \<Longrightarrow>
   foldl (series_body a inst spoofed) h (enumerate 0 cells) =
   h(a \<mapsto> map (\<lambda>d. if uri_instance_of d = spoofed then str_replace d spoofed inst else d) cells @ rest)"
proof (induction cells arbitrary: rest rule: rev_induct)
  case Nil
  then show ?case by (simp add: fun_upd_idem)
next
  case (snoc x xs)
  let ?rw = "\<lambda>d. if uri_instance_of d = spoofed then str_replace d spoofed inst else d"
  let ?h = "h(a \<mapsto> map ?rw xs @ x # rest)"
  from snoc.prems have "h a = Some (xs @ (x # rest))" by simp
  from snoc.IH[OF this]
  have IH: "foldl (series_body a inst spoofed) h (enumerate 0 xs) = ?h" .
  have "?h a = Some (map ?rw xs @ x # rest)" by simp
  from series_body_at[of ?h a "map ?rw xs" x rest inst spoofed, OF this]
  have step: "series_body a inst spoofed ?h (length xs, x) = h(a \<mapsto> map ?rw xs @ ?rw x # rest)"
    by simp
  have "foldl (series_body a inst spoofed) h (enumerate 0 (xs @ [x])) =
        series_body a inst spoofed (foldl (series_body a inst spoofed) h (enumerate 0 xs)) (length xs, x)"
    by (simp add: enumerate_append_eq)
  also have "\<dots> = h(a \<mapsto> map ?rw xs @ ?rw x # rest)"
    unfolding IH by (rule step)
  finally show ?case by simp
qed

lemma uri_to_url_column_eq:
  "uri_to_url_column cells instance spoofed = map (\<lambda>s. uri_to_url_str s instance spoofed) cells"
  using series_loop[of "[0 \<mapsto> cells]" 0 cells "[]" "instance" spoofed]
  by (auto simp: uri_to_url_column_def uri_to_url_def uri_to_url_str_eq)


lemma str_find_append:
  assumes "str_find s c start = int i" 
  shows "str_find (s @ t) c start = int i"
proof -
  let ?F = "\<lambda>u. filter (\<lambda>j. u ! j = c) [start..<length u]"
  from assms obtain js where F: "?F s = i # js"
    by (auto simp: str_find_def split: list.splits)
  then have "i \<in> set (?F s)" by simp
  then have le: "start \<le> length s" by auto
  have "[start..<length (s @ t)] = [start..<length s] @ [length s..<length s + length t]"
    unfolding length_append using le by (rule upt_add_eq_append)
  moreover have "filter (\<lambda>j. (s @ t) ! j = c) [start..<length s] = ?F s"
    by (rule filter_cong) (auto simp: nth_append)
  ultimately have "?F (s @ t) = i # js @ filter (\<lambda>j. (s @ t) ! j = c) [length s..<length s + length t]"
    using F by simp
  then show ?thesis by (simp add: str_find_def)
qed

lemma uri_instance_of_shape:
  assumes "inst \<noteq> []" and "uri_instance_of inst = inst"
  shows "uri_instance_of (inst @ rest) = inst"
proof -
  let ?F = "filter (\<lambda>j. inst ! j = CHR ''/'') [8..<length inst]"
  have "?F \<noteq> []"
  proof
    assume "?F = []"
    then have "uri_instance_of inst = []" by (simp add: uri_instance_of_def str_find_def)
    with assms show False by simp
  qed
  then obtain i js where F: "?F = i # js" by (cases ?F) auto
  then have "i \<in> set ?F" by simp
  then have i: "i < length inst" by auto
  from F have sf: "str_find inst CHR ''/'' 8 = int i" by (simp add: str_find_def)
  with assms(2) have "take (Suc i) inst = inst" by (simp add: uri_instance_of_def nat_add_distrib)
  then have "length inst \<le> Suc i" by (metis length_take min.cobounded2 min.commute)
  with i have "take (Suc i) (inst @ rest) = inst" by simp
  with str_find_append[OF sf, of rest] show ?thesis
    by (simp add: uri_instance_of_def nat_add_distrib)
qed

lemma str_find_none:
  "CHR ''/'' \<notin> set (drop 8 v) \<Longrightarrow> uri_instance_of v = []"
proof -
  assume a: "CHR ''/'' \<notin> set (drop 8 v)"
  have "filter (\<lambda>i. v ! i = CHR ''/'') [8..<length v] = []"
  proof (rule ccontr)
    assume "filter (\<lambda>i. v ! i = CHR ''/'') [8..<length v] \<noteq> []"
    then obtain i where "i \<in> set (filter (\<lambda>i. v ! i = CHR ''/'') [8..<length v])"
      by (meson last_in_set)
    then have "8 \<le> i" "i < length v" "v ! i = CHR ''/''" by auto
    then have "drop 8 v ! (i - 8) = CHR ''/''" "i - 8 < length (drop 8 v)" by auto
    then have "CHR ''/'' \<in> set (drop 8 v)" by (metis nth_mem)
    with a show False by simp
  qed
  then show ?thesis by (simp add: uri_instance_of_def str_find_def)
qed

lemma filter_upt_first:
  assumes "filter P [a..<b] = i # js"
  shows "a \<le> i \<and> i < b \<and> P i \<and> (\<forall>j. a \<le> j \<and> j < i \<longrightarrow> \<not> P j)"
proof -
  from assms obtain us vs where
    split: "[a..<b] = us @ i # vs" and no: "\<forall>u\<in>set us. \<not> P u" and Pi: "P i"
    by (auto simp: filter_eq_Cons_iff)
  have "i \<in> set [a..<b]" using split by simp
  then have bounds: "a \<le> i" "i < b" by auto
  have srt: "sorted_wrt (<) (us @ i # vs)" using split by (metis sorted_wrt_upt)
  have "\<not> P j" if "a \<le> j" "j < i" for j
  proof -
    from that bounds have "j \<in> set (us @ i # vs)" using split by (metis atLeastLessThan_iff order_less_trans set_upt)
    moreover have "j \<notin> set (i # vs)" using srt that by (auto simp: sorted_wrt_append)
    ultimately have "j \<in> set us" by auto
    with no show ?thesis by blast
  qed
  with bounds Pi show ?thesis by blast
qed

lemma str_find_some:
  assumes "CHR ''/'' \<in> set (drop 8 v)"
  shows "\<exists>n. 8 \<le> n \<and> n < length v \<and> v ! n = CHR ''/'' \<and>
             (\<forall>j. 8 \<le> j \<and> j < n \<longrightarrow> v ! j \<noteq> CHR ''/'') \<and>
             uri_instance_of v = take (Suc n) v"
proof -
  from assms obtain k where k: "k < length (drop 8 v)" "drop 8 v ! k = CHR ''/''"
    by (metis in_set_conv_nth)
  then have "8 + k < length v" "v ! (8 + k) = CHR ''/''" by auto
  then have "8 + k \<in> set (filter (\<lambda>i. v ! i = CHR ''/'') [8..<length v])" by simp
  then obtain i js where F: "filter (\<lambda>i. v ! i = CHR ''/'') [8..<length v] = i # js"
    by (cases "filter (\<lambda>i. v ! i = CHR ''/'') [8..<length v]") auto
  from filter_upt_first[OF F] F show ?thesis
    by (auto simp: uri_instance_of_def str_find_def nat_add_distrib intro!: exI[of _ i])
qed

section \<open>Claims about \<open>uri_to_url\<close>\<close>

text \<open>
  Claim C6, as the code has it. The instance prefix of a value is the substring from the
  start through the first \<open>'/'\<close> at an index of at least 8, and it is empty when
  there is no such \<open>'/'\<close>. A value whose prefix differs from the spoofed instance, and
  every value when the two instances are equal, comes back unchanged. A value whose
  prefix equals the spoofed instance (the instances being different) comes back
  beginning with the canonical instance; when the prefix is not empty and does not occur
  again in the rest of the value, the result is the canonical instance followed by that
  rest, unchanged. A collection is treated cell by cell in the same way.
\<close>

theorem uri_to_url_rewrites_instance_prefix:
  "(CHR ''/'' \<notin> set (drop 8 v) \<longrightarrow> uri_instance_of v = []) \<and>
   (CHR ''/'' \<in> set (drop 8 v) \<longrightarrow>
      (\<exists>n. 8 \<le> n \<and> n < length v \<and> v ! n = CHR ''/'' \<and>
           (\<forall>j. 8 \<le> j \<and> j < n \<longrightarrow> v ! j \<noteq> CHR ''/'') \<and>
           uri_instance_of v = take (Suc n) v)) \<and>
   (uri_instance_of v \<noteq> spoofed \<or> spoofed = inst \<longrightarrow> uri_to_url_str v inst spoofed = v) \<and>
   (uri_instance_of v = spoofed \<and> spoofed \<noteq> inst \<longrightarrow>
      prefix inst (uri_to_url_str v inst spoofed) \<and>
      (spoofed \<noteq> [] \<and> \<not> occurs spoofed (drop (length spoofed) v) \<longrightarrow>
         uri_to_url_str v inst spoofed = inst @ drop (length spoofed) v)) \<and>
   uri_to_url_column vs inst spoofed = map (\<lambda>d. uri_to_url_str d inst spoofed) vs"
proof -
  have A: "uri_instance_of v \<noteq> spoofed \<or> spoofed = inst \<longrightarrow> uri_to_url_str v inst spoofed = v"
    by (auto simp: uri_to_url_str_eq)
  have B: "prefix inst (uri_to_url_str v inst spoofed)"
    if "uri_instance_of v = spoofed" "spoofed \<noteq> inst"
  proof -
    from that uri_instance_of_split[of v]
    have "v = spoofed @ drop (length spoofed) v" by simp
    then have "prefix inst (str_replace v spoofed inst)"
      by (metis str_replace_starts)
    with that show ?thesis by (simp add: uri_to_url_str_eq)
  qed
  have C: "uri_to_url_str v inst spoofed = inst @ drop (length spoofed) v"
    if "uri_instance_of v = spoofed" "spoofed \<noteq> inst" "spoofed \<noteq> []"
       "\<not> occurs spoofed (drop (length spoofed) v)"
  proof -
    from that uri_instance_of_split[of v]
    have v: "v = spoofed @ drop (length spoofed) v" by simp
    have "str_replace v spoofed inst = replace_scan spoofed inst (spoofed @ drop (length spoofed) v)"
      using that(3) v by (simp add: str_replace_def)
    also have "\<dots> = inst @ replace_scan spoofed inst (drop (length spoofed) v)"
      using that(3) by (rule replace_scan_prefix)
    also have "\<dots> = inst @ drop (length spoofed) v"
      using that(3,4) by (simp add: replace_scan_absent)
    finally show ?thesis using that by (simp add: uri_to_url_str_eq)
  qed
  show ?thesis
    using A B C str_find_none[of v] str_find_some[of v] uri_to_url_column_eq[of vs inst spoofed]
    by blast
qed

text \<open>
  The theorem of claim C6 at \<open>https://a/x\<close>, which is rewritten, at
  \<open>https://e/y\<close>, which is not, and at \<open>https://a\<close>, which has no \<open>'/'\<close> from
  index 8 on.
\<close>

theorem uri_to_url_rewrites_instance_prefix_witness:
  "uri_instance_of ''https://a/x'' = ''https://a/'' \<and>
   \<not> occurs ''https://a/'' (drop (length ''https://a/'') ''https://a/x'') \<and>
   prefix ''https://d/'' (uri_to_url_str ''https://a/x'' ''https://d/'' ''https://a/'') \<and>
   uri_to_url_str ''https://a/x'' ''https://d/'' ''https://a/'' =
     ''https://d/'' @ drop (length ''https://a/'') ''https://a/x'' \<and>
   uri_instance_of ''https://e/y'' \<noteq> ''https://a/'' \<and>
   uri_to_url_str ''https://e/y'' ''https://d/'' ''https://a/'' = ''https://e/y'' \<and>
   CHR ''/'' \<in> set (drop 8 ''https://a/x'') \<and>
   (\<exists>n. 8 \<le> n \<and> n < length ''https://a/x'' \<and> ''https://a/x'' ! n = CHR ''/'' \<and>
        uri_instance_of ''https://a/x'' = take (Suc n) ''https://a/x'') \<and>
   CHR ''/'' \<notin> set (drop 8 ''https://a'') \<and>
   uri_instance_of ''https://a'' = []"
proof -
  have a: "uri_instance_of ''https://a/x'' = ''https://a/''" by code_simp
  have b: "''https://a/'' \<noteq> ''https://d/''" by simp
  have c: "''https://a/'' \<noteq> []" by simp
  have d: "\<not> occurs ''https://a/'' (drop (length ''https://a/'') ''https://a/x'')" by code_simp
  have e: "uri_instance_of ''https://e/y'' \<noteq> ''https://a/''" by code_simp
  from uri_to_url_rewrites_instance_prefix[of "''https://a/x''" "''https://a/''" "''https://d/''" "[]"] a b c d
  have 1: "prefix ''https://d/'' (uri_to_url_str ''https://a/x'' ''https://d/'' ''https://a/'')"
    and 2: "uri_to_url_str ''https://a/x'' ''https://d/'' ''https://a/'' =
            ''https://d/'' @ drop (length ''https://a/'') ''https://a/x''"
    by blast+
  from uri_to_url_rewrites_instance_prefix[of "''https://e/y''" "''https://a/''" "''https://d/''" "[]"] e
  have 3: "uri_to_url_str ''https://e/y'' ''https://d/'' ''https://a/'' = ''https://e/y''"
    by blast
  have f: "CHR ''/'' \<in> set (drop 8 ''https://a/x'')" by simp
  have g: "CHR ''/'' \<notin> set (drop 8 ''https://a'')" by simp
  from uri_to_url_rewrites_instance_prefix[of "''https://a/x''" "''https://a/''" "''https://d/''" "[]"] f
  have 4: "\<exists>n. 8 \<le> n \<and> n < length ''https://a/x'' \<and> ''https://a/x'' ! n = CHR ''/'' \<and>
        uri_instance_of ''https://a/x'' = take (Suc n) ''https://a/x''"
    by blast
  from uri_to_url_rewrites_instance_prefix[of "''https://a''" "''https://a/''" "''https://d/''" "[]"] g
  have 5: "uri_instance_of ''https://a'' = []"
    by blast
  from a d e f g 1 2 3 4 5 show ?thesis by blast
qed

text \<open>
  Claim C6 as it is worded fails twice. A value in which the prefix occurs a second time
  has that later occurrence replaced as well, so characters after the prefix change.
  And the prefix of \<open>https://a/b/c\<close> is \<open>https://a/\<close>, ending at the first
  \<open>'/'\<close> from index 8 on, not \<open>https://a/b/\<close>, which ends at the second one: with
  \<open>https://a/b/\<close> as the spoofed instance the value is left as it is.
\<close>

theorem uri_to_url_prefix_counterexample:
  "uri_to_url_str ''https://a/b/https://a/c'' ''https://d/'' ''https://a/'' = ''https://d/b/https://d/c'' \<and>
   uri_to_url_str ''https://a/b/https://a/c'' ''https://d/'' ''https://a/''
     \<noteq> ''https://d/'' @ drop (length ''https://a/'') ''https://a/b/https://a/c'' \<and>
   uri_instance_of ''https://a/b/c'' = ''https://a/'' \<and>
   uri_to_url_str ''https://a/b/c'' ''https://d/'' ''https://a/b/'' = ''https://a/b/c''"
  by code_simp

text \<open>
  Claim C8, as the code has it. When the canonical instance is not empty and is its own
  instance prefix (it ends at its first \<open>'/'\<close> from index 8 on, as
  \<open>https://synbiohub.org/\<close> does), applying \<open>uri_to_url\<close> twice gives the same
  result as applying it once, for a string and for a collection.
\<close>

theorem uri_to_url_idempotent:
  assumes "inst \<noteq> []" and "uri_instance_of inst = inst"
  shows "uri_to_url_str (uri_to_url_str v inst spoofed) inst spoofed = uri_to_url_str v inst spoofed \<and>
         uri_to_url_column (uri_to_url_column vs inst spoofed) inst spoofed = uri_to_url_column vs inst spoofed"
proof -
  have one: "uri_to_url_str (uri_to_url_str d inst spoofed) inst spoofed = uri_to_url_str d inst spoofed" for d
  proof (cases "spoofed \<noteq> inst \<and> uri_instance_of d = spoofed")
    case True
    with uri_instance_of_split[of d] have "d = spoofed @ drop (length spoofed) d" by simp
    then have "prefix inst (str_replace d spoofed inst)" by (metis str_replace_starts)
    then obtain r where r: "str_replace d spoofed inst = inst @ r" by (auto simp: prefix_def)
    have "uri_instance_of (inst @ r) = inst" using assms by (rule uri_instance_of_shape)
    with True r show ?thesis by (auto simp: uri_to_url_str_eq)
  next
    case False
    then show ?thesis by (auto simp: uri_to_url_str_eq)
  qed
  then show ?thesis by (simp add: uri_to_url_column_eq)
qed

text \<open>The theorem of claim C8 with \<open>https://d/\<close> as the canonical instance.\<close>

theorem uri_to_url_idempotent_witness:
  "uri_to_url_str (uri_to_url_str ''https://a/x'' ''https://d/'' ''https://a/'') ''https://d/'' ''https://a/''
     = uri_to_url_str ''https://a/x'' ''https://d/'' ''https://a/'' \<and>
   uri_to_url_column (uri_to_url_column [''https://a/x'', ''https://e/y''] ''https://d/'' ''https://a/'') ''https://d/'' ''https://a/''
     = uri_to_url_column [''https://a/x'', ''https://e/y''] ''https://d/'' ''https://a/''"
proof -
  have a: "''https://d/'' \<noteq> []" by simp
  have b: "uri_instance_of ''https://d/'' = ''https://d/''" by code_simp
  show ?thesis by (rule uri_to_url_idempotent[OF a b])
qed

text \<open>
  Claim C8 as it is worded, for every pair of distinct instances, fails: with the
  canonical instance \<open>https://a/b/\<close> and the spoofed instance \<open>https://a/\<close> the
  first call turns \<open>https://a/x\<close> into \<open>https://a/b/x\<close>, whose prefix is again the
  spoofed instance, and the second call turns that into \<open>https://a/b/b/x\<close>.
\<close>

theorem uri_to_url_idempotent_counterexample:
  "''https://a/b/'' \<noteq> ''https://a/'' \<and>
   uri_to_url_str ''https://a/x'' ''https://a/b/'' ''https://a/'' = ''https://a/b/x'' \<and>
   uri_to_url_str (uri_to_url_str ''https://a/x'' ''https://a/b/'' ''https://a/'') ''https://a/b/'' ''https://a/''
     = ''https://a/b/b/x''"
  by code_simp

text \<open>
  Claim C10. Called on a Series, \<open>uri_to_url\<close> returns the reference it was given, and
  the store holds at that address the cells rewritten in place: a cell whose prefix
  equals the spoofed instance has been replaced, every other cell and every other object
  of the store is as before.
\<close>

theorem uri_to_url_series_in_place:
  assumes "h a = Some cells"
  shows "uri_to_url (Series a) inst spoofed h =
           (Series a, if spoofed \<noteq> inst then h(a \<mapsto> map (\<lambda>d. if uri_instance_of d = spoofed then str_replace d spoofed inst else d) cells) else h)"
  using assms series_loop[of h a cells "[]" inst spoofed]
  by (simp add: uri_to_url_def)

text \<open>The theorem of claim C10 on a Series of two cells at address 3.\<close>

theorem uri_to_url_series_in_place_witness:
  "uri_to_url (Series 3) ''https://d/'' ''https://a/'' [3 \<mapsto> [''https://a/x'', ''https://e/y'']] =
     (Series 3, [3 \<mapsto> [''https://d/x'', ''https://e/y'']])"
proof -
  have h: "[3 \<mapsto> [''https://a/x'', ''https://e/y'']] (3::nat) = Some [''https://a/x'', ''https://e/y'']"
    by simp
  have r: "map (\<lambda>d. if uri_instance_of d = ''https://a/'' then str_replace d ''https://a/'' ''https://d/'' else d)
             [''https://a/x'', ''https://e/y''] = [''https://d/x'', ''https://e/y'']"
    by code_simp
  have n: "''https://a/'' \<noteq> ''https://d/''" by simp
  from uri_to_url_series_in_place[of "[3 \<mapsto> [''https://a/x'', ''https://e/y'']]" 3 "[''https://a/x'', ''https://e/y'']"
                 "''https://d/''" "''https://a/''", OF h] show ?thesis
    unfolding r using n by simp
qed

section \<open>Facts about the ranked comparison tables\<close>

lemma zip_map_same: "zip xs (map f xs) = map (\<lambda>x. (x, f x)) xs"
  by (induction xs) simp_all

lemma resolve_deff_map:
  "resolve_deff df inst spoofed = map (\<lambda>r. r\<lparr>deff := uri_to_url_str (deff r) inst spoofed\<rparr>) df"
  by (simp add: resolve_deff_def set_deff_def uri_to_url_column_eq zip_map_same o_def)

lemma length_resolve_deff [simp]: "length (resolve_deff df inst spoofed) = length df"
  by (simp add: resolve_deff_map)

lemma displayId_resolve_deff [simp]:
  "map displayId (resolve_deff df inst spoofed) = map displayId df"
  by (simp add: resolve_deff_map o_def)

lemma roletog_resolve_deff [simp]:
  "map roletog (resolve_deff df inst spoofed) = map roletog df"
  by (simp add: resolve_deff_map o_def)

lemma colours_by_index:
  "map (\<lambda>index. g (df ! index)) [0..<length df] = map g df"
  by (rule nth_equalityI) simp_all

lemma add_color_map:
  "add_color df (map g df) =
     map (\<lambda>r. \<lparr>count = count r, deff = deff r, displayId = displayId r,
                roletog = roletog r, title = title r, color = g r\<rparr>) df"
  by (simp add: add_color_def zip_map_same o_def)


lemma fill_title_fields [simp]:
  "displayId (fill_title r) = displayId r" "roletog (fill_title r) = roletog r"
  "deff (fill_title r) = deff r" "count (fill_title r) = count r"
  by (auto simp: fill_title_def split: option.splits)

lemma fill_title_color [simp]: "color (fill_title r) = color (r :: 'c ranked_row)"
  by (auto simp: fill_title_def split: option.splits)




lemma most_used_bar_rows:
  assumes "poi_table uri inst display_id title_arg role count_arg bar_df = Inr df"
  shows "most_used_bar uri inst display_id title_arg role count_arg bar_df =
           Inr (map (\<lambda>r. fill_title
                  \<lparr>count = count r, deff = deff r, displayId = displayId r,
                   roletog = roletog r, title = title r,
                   color = (case colormap (roletog r) of Some c \<Rightarrow> c
                            | None \<Rightarrow> ''rgba(255, 128,0,1)'')\<rparr>) df)"
  using assms
  by (simp add: most_used_bar_def colours_by_index[of "\<lambda>r. case colormap (roletog r) of Some c \<Rightarrow> c | None \<Rightarrow> ''rgba(255, 128,0,1)''"] add_color_map o_def)



lemma ids_of_rows:
  "map displayId (map (\<lambda>r. fill_title
       \<lparr>count = count r, deff = deff r, displayId = displayId r,
        roletog = roletog r, title = title r, color = g r\<rparr>) df) = map displayId df"
  by (simp add: o_def)




section \<open>Claims about the ranked comparison tables\<close>




text \<open>
  Claim C3 does not hold of the code. When the only row of the frame is the part of
  interest, the pool is empty, \<open>robustness\<close> is \<open>-1\<close>, the slice \<open>iloc[0:0]\<close> is an
  empty frame, and the assignment to \<open>iloc[-1]\<close> raises \<open>IndexError\<close> in both
  functions: no table of one row is returned.
\<close>

theorem ranked_table_empty_pool_fails:
  "most_used_bar ''https://a/E0040/1'' ''https://d/'' ''E0040'' ''GFP'' ''0000316'' 2348
     [\<lparr>count = Text ''2348'', deff = ''https://a/E0040/1'', displayId = ''E0040'',
       roletog = ''http://identifiers.org/so/SO:0000316'', title = Some ''GFP''\<rparr>]
   = Inl IndexError \<and>
   most_used_by_type_bar ''https://a/E0040/1'' ''https://d/'' ''E0040'' ''GFP'' ''0000316'' 2348
     [\<lparr>count = Text ''2348'', deff = ''https://a/E0040/1'', displayId = ''E0040'',
       roletog = ''http://identifiers.org/so/SO:0000316'', title = Some ''GFP''\<rparr>]
   = Inl IndexError"
  by code_simp



text \<open>
  Claim C9, as the code has it. Every row of the table returned by \<open>most_used_bar\<close> has
  the colour that the fixed mapping gives to its role, and a row whose role is not one
  of the four has the string \<open>rgba(255, 128,0,1)\<close>, written with a space after the
  first comma.
\<close>

theorem ranked_table_colours:
  assumes "most_used_bar uri inst display_id title_arg role count_arg bar_df = Inr t"
      and "r \<in> set t"
  shows "(roletog r = ''http://identifiers.org/so/SO:0000167'' \<longrightarrow> color r = ''rgba(4,187,61,1)'') \<and>
         (roletog r = ''http://identifiers.org/so/SO:0000139'' \<longrightarrow> color r = ''rgba(149,110,219,1)'') \<and>
         (roletog r = ''http://identifiers.org/so/SO:0000316'' \<longrightarrow> color r = ''rgba(119,157,205,1)'') \<and>
         (roletog r = ''http://identifiers.org/so/SO:0000141'' \<longrightarrow> color r = ''rgba(202,58,32,1)'') \<and>
         (roletog r \<notin> {''http://identifiers.org/so/SO:0000167'', ''http://identifiers.org/so/SO:0000139'',
                        ''http://identifiers.org/so/SO:0000316'', ''http://identifiers.org/so/SO:0000141''}
            \<longrightarrow> color r = ''rgba(255, 128,0,1)'')"
proof -
  obtain df where df: "poi_table uri inst display_id title_arg role count_arg bar_df = Inr df"
    using assms(1) by (cases "poi_table uri inst display_id title_arg role count_arg bar_df")
                       (auto simp: most_used_bar_def)
  from assms most_used_bar_rows[OF df]
  have "color r = (case colormap (roletog r) of Some c \<Rightarrow> c | None \<Rightarrow> ''rgba(255, 128,0,1)'')"
    by auto
  then show ?thesis by (simp add: colormap_def)
qed

text \<open>
  The theorem of claim C9 on a table of two rows, the first with a role outside the
  mapping.
\<close>

theorem ranked_table_colours_witness:
  "(case most_used_bar ''https://a/E0040/1'' ''https://d/'' ''E0040'' ''GFP'' ''0000316'' 2348
     [\<lparr>count = Text ''2550'', deff = ''https://a/J176041/1'', displayId = ''J176041'',
       roletog = ''http://identifiers.org/so/SO:0000110'', title = Some ''scar''\<rparr>,
      \<lparr>count = Text ''9052'', deff = ''https://a/B0012/1'', displayId = ''B0012'',
       roletog = ''http://identifiers.org/so/SO:0000141'', title = Some ''T1''\<rparr>]
    of Inr t \<Rightarrow> map color t | Inl e \<Rightarrow> [])
   = [''rgba(255, 128,0,1)'', ''rgba(119,157,205,1)'']"
proof -
  let ?r1 = "\<lparr>count = Text ''2550'', deff = ''https://d/J176041/1'', displayId = ''J176041'',
       roletog = ''http://identifiers.org/so/SO:0000110'', title = Some ''scar'',
       color = ''rgba(255, 128,0,1)''\<rparr>"
  let ?r2 = "\<lparr>count = Number 2348, deff = ''https://d/E0040/1'', displayId = ''E0040'',
       roletog = ''http://identifiers.org/so/SO:0000316'', title = Some ''GFP'',
       color = ''rgba(119,157,205,1)''\<rparr>"
  have t: "most_used_bar ''https://a/E0040/1'' ''https://d/'' ''E0040'' ''GFP'' ''0000316'' 2348
     [\<lparr>count = Text ''2550'', deff = ''https://a/J176041/1'', displayId = ''J176041'',
       roletog = ''http://identifiers.org/so/SO:0000110'', title = Some ''scar''\<rparr>,
      \<lparr>count = Text ''9052'', deff = ''https://a/B0012/1'', displayId = ''B0012'',
       roletog = ''http://identifiers.org/so/SO:0000141'', title = Some ''T1''\<rparr>]
     = Inr [?r1, ?r2]"
    by code_simp
  have m1: "?r1 \<in> set [?r1, ?r2]" and m2: "?r2 \<in> set [?r1, ?r2]" by simp_all
  from ranked_table_colours[OF t m1] ranked_table_colours[OF t m2] show ?thesis
    unfolding t by simp
qed

text \<open>
  Claim C9 as it is worded fails on the fallback string: the row with the role
  \<open>SO:0000110\<close> has the colour \<open>rgba(255, 128,0,1)\<close>, which is not the string
  \<open>rgba(255,128,0,1)\<close> of the claim.
\<close>

theorem ranked_table_fallback_colour_counterexample:
  "most_used_bar ''https://a/E0040/1'' ''https://d/'' ''E0040'' ''GFP'' ''0000316'' 2348
     [\<lparr>count = Text ''2550'', deff = ''https://a/J176041/1'', displayId = ''J176041'',
       roletog = ''http://identifiers.org/so/SO:0000110'', title = Some ''scar''\<rparr>,
      \<lparr>count = Text ''9052'', deff = ''https://a/B0012/1'', displayId = ''B0012'',
       roletog = ''http://identifiers.org/so/SO:0000141'', title = Some ''T1''\<rparr>]
   = Inr
     [\<lparr>count = Text ''2550'', deff = ''https://d/J176041/1'', displayId = ''J176041'',
       roletog = ''http://identifiers.org/so/SO:0000110'', title = Some ''scar'',
       color = ''rgba(255, 128,0,1)''\<rparr>,
      \<lparr>count = Number 2348, deff = ''https://d/E0040/1'', displayId = ''E0040'',
       roletog = ''http://identifiers.org/so/SO:0000316'', title = Some ''GFP'',
       color = ''rgba(119,157,205,1)''\<rparr>] \<and>
   ''rgba(255, 128,0,1)'' \<noteq> ''rgba(255,128,0,1)''"
  by code_simp

section \<open>Facts about the flow graph table\<close>

lemma inner_loop:
  assumes "n \<le> length (part_array ! i)" and "i < length (list_node_colour st)"
  shows "foldl (inner_body part_array i) st [0..<n] =
     st\<lparr>list_link_colour := list_link_colour st @ replicate n (link_colours ! i),
        list_node_colour := list_node_colour st @ replicate n (list_node_colour st ! i),
        node_label := node_label st @ map title (take n (part_array ! i)),
        node_url := node_url st @ map deff (take n (part_array ! i)),
        percent := percent st @ map centfol (take n (part_array ! i)),
        multiplier := multiplier st @ map count (take n (part_array ! i)),
        value' := value' st @ map (\<lambda>r. count r * (1 - centfol r)) (take n (part_array ! i)),
        source := source st @ replicate n i,
        list_target := list_target st @ [target st..<target st + n],
        target := target st + n\<rparr>"
  using assms(1)
proof (induction n)
  case 0
  then show ?case by simp
next
  case (Suc n)
  then have n: "n < length (part_array ! i)" by simp
  have "foldl (inner_body part_array i) st [0..<Suc n] =
        inner_body part_array i (foldl (inner_body part_array i) st [0..<n]) n"
    by simp
  also have "\<dots> = inner_body part_array i
     (st\<lparr>list_link_colour := list_link_colour st @ replicate n (link_colours ! i),
        list_node_colour := list_node_colour st @ replicate n (list_node_colour st ! i),
        node_label := node_label st @ map title (take n (part_array ! i)),
        node_url := node_url st @ map deff (take n (part_array ! i)),
        percent := percent st @ map centfol (take n (part_array ! i)),
        multiplier := multiplier st @ map count (take n (part_array ! i)),
        value' := value' st @ map (\<lambda>r. count r * (1 - centfol r)) (take n (part_array ! i)),
        source := source st @ replicate n i,
        list_target := list_target st @ [target st..<target st + n],
        target := target st + n\<rparr>) n"
    using Suc.IH n by simp
  also have "\<dots> =
     st\<lparr>list_link_colour := list_link_colour st @ replicate (Suc n) (link_colours ! i),
        list_node_colour := list_node_colour st @ replicate (Suc n) (list_node_colour st ! i),
        node_label := node_label st @ map title (take (Suc n) (part_array ! i)),
        node_url := node_url st @ map deff (take (Suc n) (part_array ! i)),
        percent := percent st @ map centfol (take (Suc n) (part_array ! i)),
        multiplier := multiplier st @ map count (take (Suc n) (part_array ! i)),
        value' := value' st @ map (\<lambda>r. count r * (1 - centfol r)) (take (Suc n) (part_array ! i)),
        source := source st @ replicate (Suc n) i,
        list_target := list_target st @ [target st..<target st + Suc n],
        target := target st + Suc n\<rparr>"
    using n assms(2)
    by (simp add: inner_body_def Let_def take_Suc_conv_app_nth nth_append replicate_append_same)
  finally show ?case .
qed


lemma upt_join: "[a..<a + b] @ [a + b..<a + b + c] = [a..<a + (b + (c::nat))]"
  using upt_add_eq_append[of a "a + b" c] by (simp add: add.assoc)

lemma outer_step:
  assumes "i < length part_array" and "length (len_part_type st) = i"
      and "i < length (list_node_colour st)"
  shows "outer_body part_array st i =
     st\<lparr>len_part_type := len_part_type st @ [min (length (part_array ! i)) 10],
        list_link_colour := list_link_colour st @
           map (\<lambda>(b, r). link_colours ! b) (map (Pair i) (take 10 (part_array ! i))),
        list_node_colour := list_node_colour st @
           map (\<lambda>(b, r). list_node_colour st ! b) (map (Pair i) (take 10 (part_array ! i))),
        node_label := node_label st @ map (title \<circ> snd) (map (Pair i) (take 10 (part_array ! i))),
        node_url := node_url st @ map (deff \<circ> snd) (map (Pair i) (take 10 (part_array ! i))),
        percent := percent st @ map (centfol \<circ> snd) (map (Pair i) (take 10 (part_array ! i))),
        multiplier := multiplier st @ map (count \<circ> snd) (map (Pair i) (take 10 (part_array ! i))),
        value' := value' st @
           map (\<lambda>(b, r). count r * (1 - centfol r)) (map (Pair i) (take 10 (part_array ! i))),
        source := source st @ map fst (map (Pair i) (take 10 (part_array ! i))),
        list_target := list_target st @
           [target st..<target st + length (take 10 (part_array ! i))],
        target := target st + length (take 10 (part_array ! i))\<rparr>"
proof -
  let ?n = "min (length (part_array ! i)) 10"
  let ?st = "st\<lparr>len_part_type := len_part_type st @ [?n]\<rparr>"
  have tk: "take ?n (part_array ! i) = take 10 (part_array ! i)"
    by (simp add: min_def)
  have "outer_body part_array st i = foldl (inner_body part_array i) ?st [0..<?n]"
    using assms(1,2) by (simp add: outer_body_def Let_def nth_append)
  also have "\<dots> =
     ?st\<lparr>list_link_colour := list_link_colour ?st @ replicate ?n (link_colours ! i),
        list_node_colour := list_node_colour ?st @ replicate ?n (list_node_colour ?st ! i),
        node_label := node_label ?st @ map title (take ?n (part_array ! i)),
        node_url := node_url ?st @ map deff (take ?n (part_array ! i)),
        percent := percent ?st @ map centfol (take ?n (part_array ! i)),
        multiplier := multiplier ?st @ map count (take ?n (part_array ! i)),
        value' := value' ?st @ map (\<lambda>r. count r * (1 - centfol r)) (take ?n (part_array ! i)),
        source := source ?st @ replicate ?n i,
        list_target := list_target ?st @ [target ?st..<target ?st + ?n],
        target := target ?st + ?n\<rparr>"
    by (rule inner_loop) (use assms(3) in simp_all)
  finally show ?thesis
    by (simp add: tk[unfolded min_def] min_def map_replicate_const o_def)
qed


lemma length_node_colours [simp]: "length node_colours = 5"
  by (simp add: node_colours_def)

lemma outer_loop:
  assumes "m \<le> 5" and "length part_array = 5"
  shows "foldl (outer_body part_array) init_lists [0..<m] =
     \<lparr>source = map fst (concat (map (\<lambda>i. map (Pair i) (take 10 (part_array ! i))) [0..<m])),
      list_target = [5..<5 + length (concat (map (\<lambda>i. map (Pair i) (take 10 (part_array ! i))) [0..<m]))],
      value' = map (\<lambda>(b, r). count r * (1 - centfol r))
                 (concat (map (\<lambda>i. map (Pair i) (take 10 (part_array ! i))) [0..<m])),
      percent = map (centfol \<circ> snd) (concat (map (\<lambda>i. map (Pair i) (take 10 (part_array ! i))) [0..<m])),
      multiplier = map (count \<circ> snd) (concat (map (\<lambda>i. map (Pair i) (take 10 (part_array ! i))) [0..<m])),
      list_link_colour = map (\<lambda>(b, r). link_colours ! b)
                 (concat (map (\<lambda>i. map (Pair i) (take 10 (part_array ! i))) [0..<m])),
      len_part_type = map (\<lambda>i. min (length (part_array ! i)) 10) [0..<m],
      target = 5 + length (concat (map (\<lambda>i. map (Pair i) (take 10 (part_array ! i))) [0..<m])),
      list_node_colour = node_colours @ map (\<lambda>(b, r). node_colours ! b)
                 (concat (map (\<lambda>i. map (Pair i) (take 10 (part_array ! i))) [0..<m])),
      node_label = [Some ''Preceeding Promoters'', Some ''Preceeding RBS'',
                    Some ''Preceeding CDS'', Some ''Preceeding Terminator'',
                    Some ''Preceeding Other''] @
                 map (title \<circ> snd) (concat (map (\<lambda>i. map (Pair i) (take 10 (part_array ! i))) [0..<m])),
      node_url = [''NA'', ''NA'', ''NA'', ''NA'', ''NA''] @
                 map (deff \<circ> snd) (concat (map (\<lambda>i. map (Pair i) (take 10 (part_array ! i))) [0..<m]))\<rparr>"
  using assms(1)
proof (induction m)
  case 0
  then show ?case by (simp add: init_lists_def)
next
  case (Suc m)
  define ks where "ks = concat (map (\<lambda>i. map (Pair i) (take 10 (part_array ! i))) [0..<m])"
  define R where "R = foldl (outer_body part_array) init_lists [0..<m]"
  from Suc have m: "m < 5" by simp
  from Suc.IH m have R: "R =
     \<lparr>source = map fst ks, list_target = [5..<5 + length ks],
      value' = map (\<lambda>(b, r). count r * (1 - centfol r)) ks,
      percent = map (centfol \<circ> snd) ks, multiplier = map (count \<circ> snd) ks,
      list_link_colour = map (\<lambda>(b, r). link_colours ! b) ks,
      len_part_type = map (\<lambda>i. min (length (part_array ! i)) 10) [0..<m],
      target = 5 + length ks,
      list_node_colour = node_colours @ map (\<lambda>(b, r). node_colours ! b) ks,
      node_label = [Some ''Preceeding Promoters'', Some ''Preceeding RBS'',
                    Some ''Preceeding CDS'', Some ''Preceeding Terminator'',
                    Some ''Preceeding Other''] @ map (title \<circ> snd) ks,
      node_url = [''NA'', ''NA'', ''NA'', ''NA'', ''NA''] @ map (deff \<circ> snd) ks\<rparr>"
    unfolding R_def ks_def by simp
  have c1: "m < length part_array" using m assms(2) by simp
  have c2: "length (len_part_type R) = m" by (simp add: R)
  have c3: "m < length (list_node_colour R)" using m by (simp add: R)
  have ks': "concat (map (\<lambda>i. map (Pair i) (take 10 (part_array ! i))) [0..<Suc m]) =
             ks @ map (Pair m) (take 10 (part_array ! m))"
    by (simp add: ks_def)
  have nc: "(node_colours @ map (\<lambda>(b, r). node_colours ! b) ks) ! m = node_colours ! m"
    using m by (simp add: nth_append)
  have "foldl (outer_body part_array) init_lists [0..<Suc m] = outer_body part_array R m"
    by (simp add: R_def)
  also note outer_step[OF c1 c2 c3]
  finally show ?case
    unfolding ks' by (simp add: R nc o_def upt_join)
qed

lemma zip_map_map_same: "zip (map f xs) (map g xs) = map (\<lambda>x. (f x, g x)) xs"
  by (induction xs) simp_all

lemma butlast_snoc3: "butlast (xs @ ys @ [z]) = xs @ ys"
  by (metis append_assoc butlast_snoc)

lemma after_loop:
  assumes "st = \<lparr>source = map fst ks, list_target = [5..<5 + length ks],
      value' = map (\<lambda>(b, r). count r * (1 - centfol r)) ks,
      percent = map (centfol \<circ> snd) ks, multiplier = map (count \<circ> snd) ks,
      list_link_colour = map (\<lambda>(b, r). link_colours ! b) ks,
      len_part_type = lp,
      target = 5 + length ks,
      list_node_colour = node_colours @ map (\<lambda>(b, r). node_colours ! b) ks,
      node_label = [Some ''Preceeding Promoters'', Some ''Preceeding RBS'',
                    Some ''Preceeding CDS'', Some ''Preceeding Terminator'',
                    Some ''Preceeding Other''] @ map (title \<circ> snd) ks,
      node_url = [''NA'', ''NA'', ''NA'', ''NA'', ''NA''] @ map (deff \<circ> snd) ks\<rparr>"
  shows "following_to_labels (length (list_link_colour st))
           (poi_to_following (length (list_link_colour st))
              (add_poi title_arg url (preceding_to_poi (length (list_link_colour st)) st))) =
     \<lparr>source = map fst ks @ [5..<5 + length ks] @ replicate (length ks) (5 + length ks) @
                [5 + length ks + 1..<5 + length ks + length ks + 1],
      list_target = [5..<5 + length ks] @ replicate (length ks) (5 + length ks) @
                [5 + length ks + 1..<5 + length ks + length ks + 1] @
                map (\<lambda>(b, r). b + (5 + length ks) + length ks + 1) ks,
      value' = map (\<lambda>(b, r). count r * (1 - centfol r)) ks @
               map (\<lambda>(b, r). count r * (1 - centfol r)) ks @
               map (\<lambda>(b, r). centfol r * count r) ks @
               map (\<lambda>(b, r). centfol r * count r) ks,
      percent = map (centfol \<circ> snd) ks, multiplier = map (count \<circ> snd) ks,
      list_link_colour = map (\<lambda>(b, r). link_colours ! b) ks @ map (\<lambda>(b, r). link_colours ! b) ks @
               map (\<lambda>(b, r). link_colours ! b) ks @ map (\<lambda>(b, r). link_colours ! b) ks,
      len_part_type = lp,
      target = 5 + length ks,
      list_node_colour = node_colours @ map (\<lambda>(b, r). node_colours ! b) ks @ [part_colour] @
               map (\<lambda>(b, r). node_colours ! b) ks @
               [''#04BB3D'', ''#956EDB'', ''#779DCC'', ''#CA3A20'', ''#FF8000''],
      node_label = [Some ''Preceeding Promoters'', Some ''Preceeding RBS'',
                    Some ''Preceeding CDS'', Some ''Preceeding Terminator'',
                    Some ''Preceeding Other''] @ map (title \<circ> snd) ks @ [Some title_arg] @
               map (title \<circ> snd) ks @
               [Some ''Following Promoters'', Some ''Following RBS'',
                Some ''Following CDS'', Some ''Following Terminator'',
                Some ''Following Other''],
      node_url = [''NA'', ''NA'', ''NA'', ''NA'', ''NA''] @ map (deff \<circ> snd) ks @ [url] @
               map (deff \<circ> snd) ks @ [''NA'', ''NA'', ''NA'', ''NA'', ''NA'']\<rparr>"
  unfolding assms
  by (simp add: following_to_labels_def poi_to_following_def add_poi_def preceding_to_poi_def
        Let_def zip_map_map_same butlast_snoc3 butlast_append o_def split_def del: upt_Suc)

lemma length_part_array_of [simp]: "length (part_array_of df) = 5"
  by (simp add: part_array_of_def Let_def)

lemma sankey_lists_eq:
  "sankey_lists url uri title_arg inst order_df =
     \<lparr>source = map fst (kept uri inst order_df) @ [5..<5 + length (kept uri inst order_df)] @
                replicate (length (kept uri inst order_df)) (5 + length (kept uri inst order_df)) @
                [5 + length (kept uri inst order_df) + 1..<
                 5 + length (kept uri inst order_df) + length (kept uri inst order_df) + 1],
      list_target = [5..<5 + length (kept uri inst order_df)] @
                replicate (length (kept uri inst order_df)) (5 + length (kept uri inst order_df)) @
                [5 + length (kept uri inst order_df) + 1..<
                 5 + length (kept uri inst order_df) + length (kept uri inst order_df) + 1] @
                map (\<lambda>(b, r). b + (5 + length (kept uri inst order_df)) +
                                length (kept uri inst order_df) + 1) (kept uri inst order_df),
      value' = map (\<lambda>(b, r). count r * (1 - centfol r)) (kept uri inst order_df) @
               map (\<lambda>(b, r). count r * (1 - centfol r)) (kept uri inst order_df) @
               map (\<lambda>(b, r). centfol r * count r) (kept uri inst order_df) @
               map (\<lambda>(b, r). centfol r * count r) (kept uri inst order_df),
      percent = map (centfol \<circ> snd) (kept uri inst order_df),
      multiplier = map (count \<circ> snd) (kept uri inst order_df),
      list_link_colour = map (\<lambda>(b, r). link_colours ! b) (kept uri inst order_df) @
               map (\<lambda>(b, r). link_colours ! b) (kept uri inst order_df) @
               map (\<lambda>(b, r). link_colours ! b) (kept uri inst order_df) @
               map (\<lambda>(b, r). link_colours ! b) (kept uri inst order_df),
      len_part_type = map (\<lambda>i. min (length (part_array_of
               (map fill_title (resolve_deff order_df inst (uri_instance_of uri))) ! i)) 10) [0..<5],
      target = 5 + length (kept uri inst order_df),
      list_node_colour = node_colours @ map (\<lambda>(b, r). node_colours ! b) (kept uri inst order_df) @
               [part_colour] @ map (\<lambda>(b, r). node_colours ! b) (kept uri inst order_df) @
               [''#04BB3D'', ''#956EDB'', ''#779DCC'', ''#CA3A20'', ''#FF8000''],
      node_label = [Some ''Preceeding Promoters'', Some ''Preceeding RBS'',
                    Some ''Preceeding CDS'', Some ''Preceeding Terminator'',
                    Some ''Preceeding Other''] @ map (title \<circ> snd) (kept uri inst order_df) @
               [Some title_arg] @ map (title \<circ> snd) (kept uri inst order_df) @
               [Some ''Following Promoters'', Some ''Following RBS'',
                Some ''Following CDS'', Some ''Following Terminator'',
                Some ''Following Other''],
      node_url = [''NA'', ''NA'', ''NA'', ''NA'', ''NA''] @ map (deff \<circ> snd) (kept uri inst order_df) @
               [url] @ map (deff \<circ> snd) (kept uri inst order_df) @
               [''NA'', ''NA'', ''NA'', ''NA'', ''NA'']\<rparr>"
proof -
  define pa where "pa = part_array_of (map fill_title (resolve_deff order_df inst (uri_instance_of uri)))"
  have len: "length pa = 5" by (simp add: pa_def)
  have ks: "kept uri inst order_df = concat (map (\<lambda>i. map (Pair i) (take 10 (pa ! i))) [0..<5])"
    by (simp add: kept_def kept_rows_def pa_def)
  note loop = outer_loop[OF order_refl len, folded ks]
  have "sankey_lists url uri title_arg inst order_df =
        following_to_labels (length (list_link_colour (foldl (outer_body pa) init_lists [0..<5])))
           (poi_to_following (length (list_link_colour (foldl (outer_body pa) init_lists [0..<5])))
              (add_poi title_arg url
                 (preceding_to_poi (length (list_link_colour (foldl (outer_body pa) init_lists [0..<5])))
                    (foldl (outer_body pa) init_lists [0..<5]))))"
    by (simp add: sankey_lists_def Let_def pa_def)
  also note after_loop[OF loop]
  finally show ?thesis unfolding pa_def .
qed

lemma pad_nth: "i < length xs \<Longrightarrow> pad n xs ! i = Some (xs ! i)"
  by (simp add: pad_def nth_append)

lemma pad_present: "length (filter (\<lambda>c. c \<noteq> None) (pad n xs)) = length xs"
  by (simp add: pad_def filter_map o_def)

lemma pad_member: "Some s \<in> set (pad n xs) \<longleftrightarrow> s \<in> set xs"
  by (auto simp: pad_def)

lemma pad_take: "take (length xs) (pad n xs) = map Some xs"
  by (simp add: pad_def)

lemma upt5: "[0..<5] = [0, 1, 2, 3, 4]"
  by code_simp

lemma bucket_sizes:
  "map length (part_array_of (map fill_title (resolve_deff df inst spoofed))) =
   map length (part_array_of df)"
  by (simp add: part_array_of_def Let_def resolve_deff_map filter_map o_def)

lemma length_kept_rows:
  "length (kept_rows part_array) = sum_list (map (\<lambda>i. min (length (part_array ! i)) 10) [0..<5])"
  by (simp add: kept_rows_def length_concat o_def min.commute)

lemma length_kept:
  "length (kept uri inst df) = sum_list (map (\<lambda>b. min (length b) 10) (part_array_of df))"
proof -
  let ?pa = "part_array_of (map fill_title (resolve_deff df inst (uri_instance_of uri)))"
  have l: "length (?pa ! i) = length (part_array_of df ! i)" if "i < 5" for i
  proof -
    have "length (?pa ! i) = map length ?pa ! i" using that by simp
    also have "\<dots> = map length (part_array_of df) ! i" by (simp only: bucket_sizes)
    also have "\<dots> = length (part_array_of df ! i)" using that by simp
    finally show ?thesis .
  qed
  have "length (kept uri inst df) =
        sum_list (map (\<lambda>i. min (length (part_array_of df ! i)) 10) [0..<5])"
    unfolding kept_def length_kept_rows
    by (rule arg_cong[where f = sum_list], rule map_cong) (simp_all add: l)
  also have "\<dots> = sum_list (map (\<lambda>b. min (length b) 10) (map ((!) (part_array_of df)) [0..<5]))"
    by (simp add: o_def)
  also have "map ((!) (part_array_of df)) [0..<5] = part_array_of df"
    using map_nth[of "part_array_of df"] by simp
  finally show ?thesis .
qed

lemma sankey_columns:
  "\<exists>n. Source (sankey url uri title_arg inst df) = pad n (source (sankey_lists url uri title_arg inst df)) \<and>
       Target (sankey url uri title_arg inst df) = pad n (list_target (sankey_lists url uri title_arg inst df)) \<and>
       Value (sankey url uri title_arg inst df) = pad n (value' (sankey_lists url uri title_arg inst df)) \<and>
       Color (sankey url uri title_arg inst df) = pad n (list_node_colour (sankey_lists url uri title_arg inst df)) \<and>
       Node_Label (sankey url uri title_arg inst df) =
         node_label (sankey_lists url uri title_arg inst df) @
         replicate (n - length (node_label (sankey_lists url uri title_arg inst df))) None \<and>
       Link (sankey url uri title_arg inst df) = pad n (node_url (sankey_lists url uri title_arg inst df)) \<and>
       Link_Color (sankey url uri title_arg inst df) = pad n (list_link_colour (sankey_lists url uri title_arg inst df))"
  unfolding sankey_def make_frame_def Let_def skey.select_convs
  by (rule exI, intro conjI; rule refl)

lemma nth_four:
  assumes "length A = P" "length B = P" "length C = P" "length D = P" "j < P"
  shows "(A @ B @ C @ D) ! j = A ! j" "(A @ B @ C @ D) ! (P + j) = B ! j"
        "(A @ B @ C @ D) ! (2 * P + j) = C ! j" "(A @ B @ C @ D) ! (3 * P + j) = D ! j"
  using assms by (simp_all add: nth_append)

lemma kept_bucket: "(b, r) \<in> set (kept uri inst df) \<Longrightarrow> b < 5"
  by (auto simp: kept_def kept_rows_def)

lemma list_lengths:
  "length (source (sankey_lists url uri title_arg inst df)) = 4 * length (kept uri inst df)"
  "length (list_target (sankey_lists url uri title_arg inst df)) = 4 * length (kept uri inst df)"
  "length (value' (sankey_lists url uri title_arg inst df)) = 4 * length (kept uri inst df)"
  "length (list_link_colour (sankey_lists url uri title_arg inst df)) = 4 * length (kept uri inst df)"
  "length (list_node_colour (sankey_lists url uri title_arg inst df)) = 11 + 2 * length (kept uri inst df)"
  "length (node_label (sankey_lists url uri title_arg inst df)) = 11 + 2 * length (kept uri inst df)"
  "length (node_url (sankey_lists url uri title_arg inst df)) = 11 + 2 * length (kept uri inst df)"
  by (simp_all add: sankey_lists_eq)

section \<open>Claims about the flow graph table\<close>

text \<open>
  Claim C2, as the code has it. Let \<open>P\<close> be the number of rows kept over the five role
  buckets, at most 10 from each. The table built by \<open>sankey\<close> has exactly
  \<open>11 + 2 * P\<close> node records (cells present in the columns \<open>Color\<close> and \<open>Link\<close>)
  and exactly \<open>4 * P\<close> link records (cells present in the columns \<open>Source\<close>,
  \<open>Target\<close>, \<open>Value\<close> and \<open>Link Color\<close>): one link from the header to the part,
  one from the part to the part of interest, one from the part of interest to the
  following part and one from the following part to the footer.
\<close>

theorem sankey_node_and_link_counts:
  fixes order_df :: "('n::{one,minus,times}) order_row list"
  defines "P \<equiv> sum_list (map (\<lambda>b. min (length b) 10) (part_array_of order_df))"
  shows "length (filter (\<lambda>c. c \<noteq> None) (Color (sankey url uri title_arg inst order_df))) = 11 + 2 * P \<and>
         length (filter (\<lambda>c. c \<noteq> None) (Link (sankey url uri title_arg inst order_df))) = 11 + 2 * P \<and>
         length (filter (\<lambda>c. c \<noteq> None) (Source (sankey url uri title_arg inst order_df))) = 4 * P \<and>
         length (filter (\<lambda>c. c \<noteq> None) (Target (sankey url uri title_arg inst order_df))) = 4 * P \<and>
         length (filter (\<lambda>c. c \<noteq> None) (Value (sankey url uri title_arg inst order_df))) = 4 * P \<and>
         length (filter (\<lambda>c. c \<noteq> None) (Link_Color (sankey url uri title_arg inst order_df))) = 4 * P"
proof -
  have P: "P = length (kept uri inst order_df)" by (simp add: P_def length_kept)
  from sankey_columns[of url uri title_arg inst order_df] obtain n where
    "Source (sankey url uri title_arg inst order_df) = pad n (source (sankey_lists url uri title_arg inst order_df))"
    "Target (sankey url uri title_arg inst order_df) = pad n (list_target (sankey_lists url uri title_arg inst order_df))"
    "Value (sankey url uri title_arg inst order_df) = pad n (value' (sankey_lists url uri title_arg inst order_df))"
    "Color (sankey url uri title_arg inst order_df) = pad n (list_node_colour (sankey_lists url uri title_arg inst order_df))"
    "Link (sankey url uri title_arg inst order_df) = pad n (node_url (sankey_lists url uri title_arg inst order_df))"
    "Link_Color (sankey url uri title_arg inst order_df) = pad n (list_link_colour (sankey_lists url uri title_arg inst order_df))"
    by blast
  then show ?thesis by (simp only: pad_present list_lengths P simp_thms)
qed

text \<open>
  The theorem of claim C2 on a table of one row: 13 node records and 4 link records.
\<close>

theorem sankey_node_and_link_counts_witness:
  "length (filter (\<lambda>c. c \<noteq> None) (Color (sankey ''https://d/E/1'' ''https://a/E/1'' ''GFP'' ''https://d/''
     [\<lparr>count = 8, deff = ''https://a/c1/1'', displayId = ''c1'',
       roletog = ''http://identifiers.org/so/SO:0000316'', title = None, centfol = (1/4 :: real)\<rparr>]))) = 13 \<and>
   length (filter (\<lambda>c. c \<noteq> None) (Source (sankey ''https://d/E/1'' ''https://a/E/1'' ''GFP'' ''https://d/''
     [\<lparr>count = 8, deff = ''https://a/c1/1'', displayId = ''c1'',
       roletog = ''http://identifiers.org/so/SO:0000316'', title = None, centfol = (1/4 :: real)\<rparr>]))) = 4"
proof -
  have P: "sum_list (map (\<lambda>b. min (length b) 10) (part_array_of
     [\<lparr>count = 8, deff = ''https://a/c1/1'', displayId = ''c1'',
       roletog = ''http://identifiers.org/so/SO:0000316'', title = None, centfol = (1/4 :: real)\<rparr>])) = 1"
    by code_simp
  from sankey_node_and_link_counts[where url = "''https://d/E/1''" and uri = "''https://a/E/1''" and title_arg = "''GFP''"
       and inst = "''https://d/''" and order_df =
       "[\<lparr>count = 8, deff = ''https://a/c1/1'', displayId = ''c1'',
          roletog = ''http://identifiers.org/so/SO:0000316'', title = None, centfol = (1/4 :: real)\<rparr>]"]
  show ?thesis unfolding P by simp
qed

text \<open>
  Claim C2 as it is worded fails on the link count. With two promoters, no RBS, one CDS,
  no terminator and three other parts, \<open>P\<close> is 6, there are 23 node records and 24 link
  records, not 18.
\<close>

theorem sankey_link_count_counterexample:
  "sum_list (map (\<lambda>b. min (length b) 10) (part_array_of
     [\<lparr>count = 40, deff = ''https://a/p1/1'', displayId = ''p1'',
       roletog = ''http://identifiers.org/so/SO:0000167'', title = Some ''P1'', centfol = (1/4 :: real)\<rparr>,
      \<lparr>count = 30, deff = ''https://a/o1/1'', displayId = ''o1'',
       roletog = ''http://identifiers.org/so/SO:0000110'', title = None, centfol = 1/2\<rparr>,
      \<lparr>count = 20, deff = ''https://a/c1/1'', displayId = ''c1'',
       roletog = ''http://identifiers.org/so/SO:0000316'', title = Some ''C1'', centfol = 0\<rparr>,
      \<lparr>count = 12, deff = ''https://a/p2/1'', displayId = ''p2'',
       roletog = ''http://identifiers.org/so/SO:0000167'', title = None, centfol = 1\<rparr>,
      \<lparr>count = 8, deff = ''https://a/o2/1'', displayId = ''o2'',
       roletog = ''http://identifiers.org/so/SO:0000057'', title = Some ''O2'', centfol = 3/4\<rparr>,
      \<lparr>count = 4, deff = ''https://a/o3/1'', displayId = ''o3'',
       roletog = ''http://identifiers.org/so/SO:0000110'', title = Some ''O3'', centfol = 1/2\<rparr>])) = 6 \<and>
   length (filter (\<lambda>c. c \<noteq> None) (Color (sankey ''https://d/E/1'' ''https://a/E/1'' ''GFP'' ''https://d/''
     [\<lparr>count = 40, deff = ''https://a/p1/1'', displayId = ''p1'',
       roletog = ''http://identifiers.org/so/SO:0000167'', title = Some ''P1'', centfol = (1/4 :: real)\<rparr>,
      \<lparr>count = 30, deff = ''https://a/o1/1'', displayId = ''o1'',
       roletog = ''http://identifiers.org/so/SO:0000110'', title = None, centfol = 1/2\<rparr>,
      \<lparr>count = 20, deff = ''https://a/c1/1'', displayId = ''c1'',
       roletog = ''http://identifiers.org/so/SO:0000316'', title = Some ''C1'', centfol = 0\<rparr>,
      \<lparr>count = 12, deff = ''https://a/p2/1'', displayId = ''p2'',
       roletog = ''http://identifiers.org/so/SO:0000167'', title = None, centfol = 1\<rparr>,
      \<lparr>count = 8, deff = ''https://a/o2/1'', displayId = ''o2'',
       roletog = ''http://identifiers.org/so/SO:0000057'', title = Some ''O2'', centfol = 3/4\<rparr>,
      \<lparr>count = 4, deff = ''https://a/o3/1'', displayId = ''o3'',
       roletog = ''http://identifiers.org/so/SO:0000110'', title = Some ''O3'', centfol = 1/2\<rparr>]))) = 23 \<and>
   length (filter (\<lambda>c. c \<noteq> None) (Source (sankey ''https://d/E/1'' ''https://a/E/1'' ''GFP'' ''https://d/''
     [\<lparr>count = 40, deff = ''https://a/p1/1'', displayId = ''p1'',
       roletog = ''http://identifiers.org/so/SO:0000167'', title = Some ''P1'', centfol = (1/4 :: real)\<rparr>,
      \<lparr>count = 30, deff = ''https://a/o1/1'', displayId = ''o1'',
       roletog = ''http://identifiers.org/so/SO:0000110'', title = None, centfol = 1/2\<rparr>,
      \<lparr>count = 20, deff = ''https://a/c1/1'', displayId = ''c1'',
       roletog = ''http://identifiers.org/so/SO:0000316'', title = Some ''C1'', centfol = 0\<rparr>,
      \<lparr>count = 12, deff = ''https://a/p2/1'', displayId = ''p2'',
       roletog = ''http://identifiers.org/so/SO:0000167'', title = None, centfol = 1\<rparr>,
      \<lparr>count = 8, deff = ''https://a/o2/1'', displayId = ''o2'',
       roletog = ''http://identifiers.org/so/SO:0000057'', title = Some ''O2'', centfol = 3/4\<rparr>,
      \<lparr>count = 4, deff = ''https://a/o3/1'', displayId = ''o3'',
       roletog = ''http://identifiers.org/so/SO:0000110'', title = Some ''O3'', centfol = 1/2\<rparr>]))) = 24 \<and>
   (24::nat) \<noteq> 3 * 6"
  by code_simp

text \<open>
  Claim C5. In the table built by \<open>sankey\<close> the node records stand in the order of
  construction: the five bucket headers at indices 0 to 4, the kept preceding parts from
  index 5 on, one node for the part of interest, the same parts again as following
  parts, and the five bucket footers; there are \<open>11 + 2 * P\<close> of them. Every value
  in the columns \<open>Source\<close> and \<open>Target\<close> is below \<open>11 + 2 * P\<close>, the index of a node
  of the table.
\<close>

theorem sankey_construction_order:
  fixes order_df :: "('n::{one,minus,times}) order_row list" and uri inst :: string
  defines "ks \<equiv> kept uri inst order_df"
  shows "take (11 + 2 * length ks) (Node_Label (sankey url uri title_arg inst order_df)) =
           [Some ''Preceeding Promoters'', Some ''Preceeding RBS'', Some ''Preceeding CDS'',
            Some ''Preceeding Terminator'', Some ''Preceeding Other''] @
           map (title \<circ> snd) ks @ [Some title_arg] @ map (title \<circ> snd) ks @
           [Some ''Following Promoters'', Some ''Following RBS'', Some ''Following CDS'',
            Some ''Following Terminator'', Some ''Following Other''] \<and>
         take (11 + 2 * length ks) (Link (sankey url uri title_arg inst order_df)) =
           map Some ([''NA'', ''NA'', ''NA'', ''NA'', ''NA''] @ map (deff \<circ> snd) ks @ [url] @
                     map (deff \<circ> snd) ks @ [''NA'', ''NA'', ''NA'', ''NA'', ''NA'']) \<and>
         length (filter (\<lambda>c. c \<noteq> None) (Color (sankey url uri title_arg inst order_df))) =
           11 + 2 * length ks \<and>
         (\<forall>s. Some s \<in> set (Source (sankey url uri title_arg inst order_df)) \<or>
              Some s \<in> set (Target (sankey url uri title_arg inst order_df))
              \<longrightarrow> s < 11 + 2 * length ks)"
proof -
  from sankey_columns[of url uri title_arg inst order_df] obtain n where
    S: "Source (sankey url uri title_arg inst order_df) = pad n (source (sankey_lists url uri title_arg inst order_df))" and
    T: "Target (sankey url uri title_arg inst order_df) = pad n (list_target (sankey_lists url uri title_arg inst order_df))" and
    C: "Color (sankey url uri title_arg inst order_df) = pad n (list_node_colour (sankey_lists url uri title_arg inst order_df))" and
    N: "Node_Label (sankey url uri title_arg inst order_df) =
         node_label (sankey_lists url uri title_arg inst order_df) @
         replicate (n - length (node_label (sankey_lists url uri title_arg inst order_df))) None" and
    L: "Link (sankey url uri title_arg inst order_df) = pad n (node_url (sankey_lists url uri title_arg inst order_df))"
    by blast
  have labels: "take (11 + 2 * length ks) (Node_Label (sankey url uri title_arg inst order_df)) =
        node_label (sankey_lists url uri title_arg inst order_df)"
    unfolding N using list_lengths(6)[of url uri title_arg inst order_df]
    by (simp add: ks_def)
  have links: "take (11 + 2 * length ks) (Link (sankey url uri title_arg inst order_df)) =
        map Some (node_url (sankey_lists url uri title_arg inst order_df))"
    unfolding L using pad_take[of "node_url (sankey_lists url uri title_arg inst order_df)" n]
    by (simp add: list_lengths ks_def)
  have count: "length (filter (\<lambda>c. c \<noteq> None) (Color (sankey url uri title_arg inst order_df))) =
        11 + 2 * length ks"
    unfolding C by (simp only: pad_present list_lengths ks_def)
  have b5: "b < 5" if "(b, r) \<in> set ks" for b r
    using that kept_bucket unfolding ks_def by blast
  have src: "s < 11 + 2 * length ks"
    if "s \<in> set (source (sankey_lists url uri title_arg inst order_df))" for s
    using that by (auto simp: sankey_lists_eq ks_def[symmetric] dest!: b5)
  have tgt: "s < 11 + 2 * length ks"
    if "s \<in> set (list_target (sankey_lists url uri title_arg inst order_df))" for s
    using that by (auto simp: sankey_lists_eq ks_def[symmetric] dest!: b5)
  have valid: "\<forall>s. Some s \<in> set (Source (sankey url uri title_arg inst order_df)) \<or>
              Some s \<in> set (Target (sankey url uri title_arg inst order_df))
              \<longrightarrow> s < 11 + 2 * length ks"
    unfolding S T pad_member using src tgt by blast
  show ?thesis
    using labels links count valid
    by (simp only: sankey_lists_eq lists.select_convs ks_def simp_thms)
qed

text \<open>
  The theorem of claim C5 on a table of one row, where 7 is a source and there are 13
  nodes.
\<close>

theorem sankey_construction_order_witness:
  "take 13 (Node_Label (sankey ''https://d/E/1'' ''https://a/E/1'' ''GFP'' ''https://d/''
     [\<lparr>count = 8, deff = ''https://a/c1/1'', displayId = ''c1'',
       roletog = ''http://identifiers.org/so/SO:0000316'', title = None, centfol = (1/4 :: real)\<rparr>])) =
     [Some ''Preceeding Promoters'', Some ''Preceeding RBS'', Some ''Preceeding CDS'',
      Some ''Preceeding Terminator'', Some ''Preceeding Other'', Some ''c1'', Some ''GFP'',
      Some ''c1'', Some ''Following Promoters'', Some ''Following RBS'', Some ''Following CDS'',
      Some ''Following Terminator'', Some ''Following Other''] \<and>
   Some 7 \<in> set (Source (sankey ''https://d/E/1'' ''https://a/E/1'' ''GFP'' ''https://d/''
     [\<lparr>count = 8, deff = ''https://a/c1/1'', displayId = ''c1'',
       roletog = ''http://identifiers.org/so/SO:0000316'', title = None, centfol = (1/4 :: real)\<rparr>])) \<and>
   (7::nat) < 13"
proof -
  let ?df = "[\<lparr>count = 8, deff = ''https://a/c1/1'', displayId = ''c1'',
       roletog = ''http://identifiers.org/so/SO:0000316'', title = None, centfol = (1/4 :: real)\<rparr>]"
  have k: "kept ''https://a/E/1'' ''https://d/'' ?df =
      [(2, \<lparr>count = 8, deff = ''https://d/c1/1'', displayId = ''c1'',
           roletog = ''http://identifiers.org/so/SO:0000316'', title = Some ''c1'', centfol = 1/4\<rparr>)]"
    by code_simp
  have m: "Some 7 \<in> set (Source (sankey ''https://d/E/1'' ''https://a/E/1'' ''GFP'' ''https://d/'' ?df))"
    by code_simp
  note fact5 = sankey_construction_order[where uri = "''https://a/E/1''" and inst = "''https://d/''" and url = "''https://d/E/1''"
      and title_arg = "''GFP''" and order_df = ?df, unfolded k]
  from fact5 have labels: "take 13 (Node_Label (sankey ''https://d/E/1'' ''https://a/E/1'' ''GFP'' ''https://d/'' ?df)) =
     [Some ''Preceeding Promoters'', Some ''Preceeding RBS'', Some ''Preceeding CDS'',
      Some ''Preceeding Terminator'', Some ''Preceeding Other'', Some ''c1'', Some ''GFP'',
      Some ''c1'', Some ''Following Promoters'', Some ''Following RBS'', Some ''Following CDS'',
      Some ''Following Terminator'', Some ''Following Other'']"
    by simp
  note v = fact5[THEN conjunct2, THEN conjunct2, THEN conjunct2, THEN spec, of 7]
  have "Some 7 \<in> set (Source (sankey ''https://d/E/1'' ''https://a/E/1'' ''GFP'' ''https://d/'' ?df)) \<or>
        Some 7 \<in> set (Target (sankey ''https://d/E/1'' ''https://a/E/1'' ''GFP'' ''https://d/'' ?df))"
    using m by (rule disjI1)
  from mp[OF v this] have "(7::nat) < 13" by simp
  with labels m show ?thesis by simp
qed

text \<open>
  Claim C7. For the kept row number \<open>j\<close>, a row \<open>r\<close> of bucket \<open>b\<close>, the link from the
  header \<open>b\<close> to the part (node \<open>5 + j\<close>) and the link from the part to the part of
  interest (node \<open>5 + P\<close>) both have the width \<open>count * (1 - centfol)\<close> and the link
  colour of the bucket; the link from the part of interest to the following part (node
  \<open>6 + P + j\<close>) and the link from there to the footer (node \<open>6 + 2 * P + b\<close>) both
  have the width \<open>centfol * count\<close> and the same colour. The numbers are of any type
  with \<open>1\<close>, \<open>-\<close> and \<open>*\<close>; no law of arithmetic is used.
\<close>

theorem sankey_link_widths:
  fixes order_df :: "('n::{one,minus,times}) order_row list" and uri inst :: string
  defines "P \<equiv> length (kept uri inst order_df)"
  assumes j: "j < length (kept uri inst order_df)" and row: "kept uri inst order_df ! j = (b, r)"
  shows "Source (sankey url uri title_arg inst order_df) ! j = Some b \<and>
         Target (sankey url uri title_arg inst order_df) ! j = Some (5 + j) \<and>
         Value (sankey url uri title_arg inst order_df) ! j = Some (count r * (1 - centfol r)) \<and>
         Link_Color (sankey url uri title_arg inst order_df) ! j = Some (link_colours ! b) \<and>
         Source (sankey url uri title_arg inst order_df) ! (P + j) = Some (5 + j) \<and>
         Target (sankey url uri title_arg inst order_df) ! (P + j) = Some (5 + P) \<and>
         Value (sankey url uri title_arg inst order_df) ! (P + j) = Some (count r * (1 - centfol r)) \<and>
         Link_Color (sankey url uri title_arg inst order_df) ! (P + j) = Some (link_colours ! b) \<and>
         Source (sankey url uri title_arg inst order_df) ! (2 * P + j) = Some (5 + P) \<and>
         Target (sankey url uri title_arg inst order_df) ! (2 * P + j) = Some (6 + P + j) \<and>
         Value (sankey url uri title_arg inst order_df) ! (2 * P + j) = Some (centfol r * count r) \<and>
         Link_Color (sankey url uri title_arg inst order_df) ! (2 * P + j) = Some (link_colours ! b) \<and>
         Source (sankey url uri title_arg inst order_df) ! (3 * P + j) = Some (6 + P + j) \<and>
         Target (sankey url uri title_arg inst order_df) ! (3 * P + j) = Some (6 + 2 * P + b) \<and>
         Value (sankey url uri title_arg inst order_df) ! (3 * P + j) = Some (centfol r * count r) \<and>
         Link_Color (sankey url uri title_arg inst order_df) ! (3 * P + j) = Some (link_colours ! b)"
proof -
  let ?ks = "kept uri inst order_df"
  let ?st = "sankey_lists url uri title_arg inst order_df"
  from sankey_columns[of url uri title_arg inst order_df] obtain n where
    S: "Source (sankey url uri title_arg inst order_df) = pad n (source ?st)" and
    T: "Target (sankey url uri title_arg inst order_df) = pad n (list_target ?st)" and
    V: "Value (sankey url uri title_arg inst order_df) = pad n (value' ?st)" and
    L: "Link_Color (sankey url uri title_arg inst order_df) = pad n (list_link_colour ?st)"
    by blast
  have jP: "j < P" using j by (simp add: P_def)
  have idx: "j < 4 * P" "P + j < 4 * P" "2 * P + j < 4 * P" "3 * P + j < 4 * P"
    using jP by simp_all
  have src: "source ?st = map fst ?ks @ [5..<5 + P] @ replicate P (5 + P) @ [5 + P + 1..<5 + P + P + 1]"
    by (simp add: sankey_lists_eq P_def)
  have tgt: "list_target ?st = [5..<5 + P] @ replicate P (5 + P) @ [5 + P + 1..<5 + P + P + 1] @
               map (\<lambda>(b, r). b + (5 + P) + P + 1) ?ks"
    by (simp add: sankey_lists_eq P_def)
  have val: "value' ?st = map (\<lambda>(b, r). count r * (1 - centfol r)) ?ks @
               map (\<lambda>(b, r). count r * (1 - centfol r)) ?ks @
               map (\<lambda>(b, r). centfol r * count r) ?ks @ map (\<lambda>(b, r). centfol r * count r) ?ks"
    by (simp add: sankey_lists_eq)
  have col: "list_link_colour ?st = map (\<lambda>(b, r). link_colours ! b) ?ks @
               map (\<lambda>(b, r). link_colours ! b) ?ks @ map (\<lambda>(b, r). link_colours ! b) ?ks @
               map (\<lambda>(b, r). link_colours ! b) ?ks"
    by (simp add: sankey_lists_eq)
  have lenP: "length ?ks = P" by (simp add: P_def)
  have s: "source ?st ! j = b" "source ?st ! (P + j) = 5 + j"
          "source ?st ! (2 * P + j) = 5 + P" "source ?st ! (3 * P + j) = 6 + P + j"
    unfolding src using jP row lenP
    by (simp_all add: nth_four[where P = P and j = j])
  have t: "list_target ?st ! j = 5 + j" "list_target ?st ! (P + j) = 5 + P"
          "list_target ?st ! (2 * P + j) = 6 + P + j" "list_target ?st ! (3 * P + j) = 6 + 2 * P + b"
    unfolding tgt using jP row lenP
    by (simp_all add: nth_four[where P = P and j = j])
  have v: "value' ?st ! j = count r * (1 - centfol r)" "value' ?st ! (P + j) = count r * (1 - centfol r)"
          "value' ?st ! (2 * P + j) = centfol r * count r" "value' ?st ! (3 * P + j) = centfol r * count r"
    unfolding val using jP row lenP
    by (simp_all add: nth_four[where P = P and j = j])
  have c: "list_link_colour ?st ! j = link_colours ! b" "list_link_colour ?st ! (P + j) = link_colours ! b"
          "list_link_colour ?st ! (2 * P + j) = link_colours ! b"
          "list_link_colour ?st ! (3 * P + j) = link_colours ! b"
    unfolding col using jP row lenP
    by (simp_all add: nth_four[where P = P and j = j])
  have len: "length (source ?st) = 4 * P" "length (list_target ?st) = 4 * P"
            "length (value' ?st) = 4 * P" "length (list_link_colour ?st) = 4 * P"
    by (simp_all add: list_lengths P_def)
  show ?thesis
    unfolding S T V L
    using idx by (simp add: pad_nth len s t v c)
qed

text \<open>
  The theorem of claim C7 on a table of one row with count 8 and \<open>centfol\<close> a quarter:
  the widths are 6, 6, 2 and 2.
\<close>

theorem sankey_link_widths_witness:
  "Value (sankey ''https://d/E/1'' ''https://a/E/1'' ''GFP'' ''https://d/''
     [\<lparr>count = 8, deff = ''https://a/c1/1'', displayId = ''c1'',
       roletog = ''http://identifiers.org/so/SO:0000316'', title = None, centfol = (1/4 :: real)\<rparr>]) ! 0 = Some 6 \<and>
   Value (sankey ''https://d/E/1'' ''https://a/E/1'' ''GFP'' ''https://d/''
     [\<lparr>count = 8, deff = ''https://a/c1/1'', displayId = ''c1'',
       roletog = ''http://identifiers.org/so/SO:0000316'', title = None, centfol = (1/4 :: real)\<rparr>]) ! 1 = Some 6 \<and>
   Value (sankey ''https://d/E/1'' ''https://a/E/1'' ''GFP'' ''https://d/''
     [\<lparr>count = 8, deff = ''https://a/c1/1'', displayId = ''c1'',
       roletog = ''http://identifiers.org/so/SO:0000316'', title = None, centfol = (1/4 :: real)\<rparr>]) ! 2 = Some 2 \<and>
   Value (sankey ''https://d/E/1'' ''https://a/E/1'' ''GFP'' ''https://d/''
     [\<lparr>count = 8, deff = ''https://a/c1/1'', displayId = ''c1'',
       roletog = ''http://identifiers.org/so/SO:0000316'', title = None, centfol = (1/4 :: real)\<rparr>]) ! 3 = Some 2"
proof -
  let ?df = "[\<lparr>count = 8, deff = ''https://a/c1/1'', displayId = ''c1'',
       roletog = ''http://identifiers.org/so/SO:0000316'', title = None, centfol = (1/4 :: real)\<rparr>]"
  let ?r = "\<lparr>count = 8::real, deff = ''https://d/c1/1'', displayId = ''c1'',
           roletog = ''http://identifiers.org/so/SO:0000316'', title = Some ''c1'', centfol = 1/4\<rparr>"
  have k: "kept ''https://a/E/1'' ''https://d/'' ?df = [(2, ?r)]"
    by code_simp
  have j: "0 < length (kept ''https://a/E/1'' ''https://d/'' ?df)" by (simp add: k)
  have row: "kept ''https://a/E/1'' ''https://d/'' ?df ! 0 = (2, ?r)" by (simp add: k)
  from sankey_link_widths[OF j row, where url = "''https://d/E/1''" and title_arg = "''GFP''"] show ?thesis
    by (simp add: k)
qed

end
